theory Spec2Isabelle
  imports Main "HOL-Library.Sublist" "HOL-Library.Multiset" "HOL-Library.Word"
begin

unbundle bit_operations_syntax

section \<open>Python values\<close>

text \<open>
  A Python \<^verbatim>\<open>bytes\<close> object is a \<^typ>\<open>string\<close> (one \<^typ>\<open>char\<close> per byte).
  A Python \<^verbatim>\<open>str\<close> is represented by its UTF-8 encoding, again a \<^typ>\<open>string\<close>:
  concatenation, equality, emptiness and substring search on a \<^verbatim>\<open>str\<close> agree with the same
  operations on its UTF-8 bytes, \<^verbatim>\<open>bytes.decode()\<close> is the check that the bytes are
  well-formed UTF-8, and \<^verbatim>\<open>str.encode()\<close> returns the representation itself.
\<close>

datatype py_error = IndexError | ValueError | UnicodeDecodeError | OSError

subsection \<open>Searching and splitting\<close>

text \<open>\<^verbatim>\<open>s.find(sub)\<close>: the lowest index at which \<open>sub\<close> occurs in \<open>s\<close>.\<close>

fun find_sub :: "'a list \<Rightarrow> 'a list \<Rightarrow> nat option" where
  "find_sub sub [] = (if sub = [] then Some 0 else None)"
| "find_sub sub (c # cs) =
     (if prefix sub (c # cs) then Some 0 else map_option Suc (find_sub sub cs))"

text \<open>\<^verbatim>\<open>s.rfind(sub)\<close>: the highest index at which \<open>sub\<close> occurs in \<open>s\<close>.\<close>

fun rfind_sub :: "'a list \<Rightarrow> 'a list \<Rightarrow> nat option" where
  "rfind_sub sub [] = (if sub = [] then Some 0 else None)"
| "rfind_sub sub (c # cs) =
     (case rfind_sub sub cs of
        Some i \<Rightarrow> Some (Suc i)
      | None \<Rightarrow> if prefix sub (c # cs) then Some 0 else None)"

text \<open>\<^verbatim>\<open>sub in s\<close>\<close>

definition py_in :: "'a list \<Rightarrow> 'a list \<Rightarrow> bool" where
  "py_in sub s = (find_sub sub s \<noteq> None)"

text \<open>\<^verbatim>\<open>s.find(sub, start)\<close> for \<open>start \<ge> 0\<close>; \<open>-1\<close> when there is no occurrence.\<close>

definition py_find :: "'a list \<Rightarrow> 'a list \<Rightarrow> nat \<Rightarrow> int" where
  "py_find s sub start =
     (if start > length s then - 1
      else case find_sub sub (drop start s) of
             None \<Rightarrow> - 1
           | Some i \<Rightarrow> int (start + i))"

text \<open>\<^verbatim>\<open>s[start:stop]\<close> with Python's treatment of negative and out-of-range bounds.\<close>

definition py_slice :: "'a list \<Rightarrow> int \<Rightarrow> int \<Rightarrow> 'a list" where
  "py_slice s start stop =
     (let n = int (length s);
          norm = (\<lambda>i. if i < 0 then max (i + n) 0 else min i n);
          a = norm start; b = norm stop
      in if a < b then take (nat (b - a)) (drop (nat a) s) else [])"

lemma find_sub_bound: "find_sub sub s = Some i \<Longrightarrow> i + length sub \<le> length s"
proof (induction s arbitrary: i)
  case Nil
  then show ?case by (simp split: if_splits)
next
  case (Cons c cs)
  show ?case
  proof (cases "prefix sub (c # cs)")
    case True
    then have "length sub \<le> length (c # cs)" by (rule prefix_length_le)
    with True Cons.prems show ?thesis by simp
  next
    case False
    with Cons.prems obtain j where "find_sub sub cs = Some j" "i = Suc j" by auto
    with Cons.IH show ?thesis by simp
  qed
qed

text \<open>
  \<^verbatim>\<open>s.split(sep)\<close>: cut at each occurrence of \<open>sep\<close>, found from the left and not
  overlapping. Python raises \<^verbatim>\<open>ValueError\<close> for an empty separator; every call in the
  program passes a separator that is not empty, and here an empty one cuts nowhere.
\<close>

function py_split :: "'a list \<Rightarrow> 'a list \<Rightarrow> 'a list list" where
  "py_split s sep =
     (if sep = [] then [s]
      else case find_sub sep s of
             None \<Rightarrow> [s]
           | Some i \<Rightarrow> take i s # py_split (drop (i + length sep) s) sep)"
  by pat_completeness auto
termination
proof (relation "measure (\<lambda>(s, sep). length s)")
  show "wf (measure (\<lambda>(s, sep). length s))" by simp
next
  fix s sep :: "'a list" and i
  assume "sep \<noteq> []" "find_sub sep s = Some i"
  then have "i + length sep \<le> length s" and "0 < length sep"
    by (auto dest: find_sub_bound)
  then have "length s - (i + length sep) < length s"
    by arith
  then show "((drop (i + length sep) s, sep), (s, sep)) \<in> measure (\<lambda>(s, sep). length s)"
    by simp
qed

declare py_split.simps [simp del]

text \<open>\<^verbatim>\<open>s.split(sep, 1)\<close>: one or two pieces.\<close>

definition py_split1 :: "'a list \<Rightarrow> 'a list \<Rightarrow> 'a list list" where
  "py_split1 s sep =
     (case find_sub sep s of
        None \<Rightarrow> [s]
      | Some i \<Rightarrow> [take i s, drop (i + length sep) s])"

text \<open>\<^verbatim>\<open>s.rsplit(sep, 1)\<close>: one or two pieces, cut at the last occurrence.\<close>

definition py_rsplit1 :: "'a list \<Rightarrow> 'a list \<Rightarrow> 'a list list" where
  "py_rsplit1 s sep =
     (case rfind_sub sep s of
        None \<Rightarrow> [s]
      | Some i \<Rightarrow> [take i s, drop (i + length sep) s])"

text \<open>\<^verbatim>\<open>xs[i]\<close> for \<open>i \<ge> 0\<close>.\<close>

definition py_index :: "'a list \<Rightarrow> nat \<Rightarrow> py_error + 'a" where
  "py_index xs i = (if i < length xs then Inr (xs ! i) else Inl IndexError)"

subsection \<open>Decoding, encoding and whitespace\<close>

text \<open>
  \<^verbatim>\<open>bytes.decode()\<close> (UTF-8, strict): the bytes must be well-formed UTF-8, which excludes
  overlong forms, the surrogates U+D800 to U+DFFF and anything above U+10FFFF.
\<close>

definition cont_byte :: "char \<Rightarrow> bool" where
  "cont_byte c = (0x80 \<le> (of_char c :: nat) \<and> (of_char c :: nat) \<le> 0xBF)"

fun utf8_valid :: "string \<Rightarrow> bool" where
  "utf8_valid [] = True"
| "utf8_valid (c # cs) =
     (let b = (of_char c :: nat) in
      if b < 0x80 then utf8_valid cs
      else if 0xC2 \<le> b \<and> b \<le> 0xDF then
        (case cs of c1 # r \<Rightarrow> cont_byte c1 \<and> utf8_valid r | _ \<Rightarrow> False)
      else if 0xE0 \<le> b \<and> b \<le> 0xEF then
        (case cs of
           c1 # c2 # r \<Rightarrow>
             cont_byte c1 \<and> cont_byte c2
             \<and> (b = 0xE0 \<longrightarrow> 0xA0 \<le> (of_char c1 :: nat))
             \<and> (b = 0xED \<longrightarrow> (of_char c1 :: nat) \<le> 0x9F)
             \<and> utf8_valid r
         | _ \<Rightarrow> False)
      else if 0xF0 \<le> b \<and> b \<le> 0xF4 then
        (case cs of
           c1 # c2 # c3 # r \<Rightarrow>
             cont_byte c1 \<and> cont_byte c2 \<and> cont_byte c3
             \<and> (b = 0xF0 \<longrightarrow> 0x90 \<le> (of_char c1 :: nat))
             \<and> (b = 0xF4 \<longrightarrow> (of_char c1 :: nat) \<le> 0x8F)
             \<and> utf8_valid r
         | _ \<Rightarrow> False)
      else False)"

definition decode :: "string \<Rightarrow> py_error + string" where
  "decode bs = (if utf8_valid bs then Inr bs else Inl UnicodeDecodeError)"

text \<open>\<^verbatim>\<open>str.encode()\<close>: the UTF-8 bytes of a \<^verbatim>\<open>str\<close>, which is how a \<^verbatim>\<open>str\<close> is kept here.\<close>

definition encode :: "string \<Rightarrow> string" where
  "encode s = s"

text \<open>
  The characters \<^verbatim>\<open>str.strip()\<close> removes, in UTF-8: U+0009 to U+000D, U+001C to U+0020,
  U+0085, U+00A0, U+1680, U+2000 to U+200A, U+2028, U+2029, U+202F, U+205F and U+3000.
\<close>

definition py_whitespace :: "string list" where
  "py_whitespace =
     [[CHR 0x09], [CHR 0x0A], [CHR 0x0B], [CHR 0x0C], [CHR 0x0D],
      [CHR 0x1C], [CHR 0x1D], [CHR 0x1E], [CHR 0x1F], [CHR 0x20],
      [CHR 0xC2, CHR 0x85], [CHR 0xC2, CHR 0xA0],
      [CHR 0xE1, CHR 0x9A, CHR 0x80],
      [CHR 0xE2, CHR 0x80, CHR 0x80], [CHR 0xE2, CHR 0x80, CHR 0x81],
      [CHR 0xE2, CHR 0x80, CHR 0x82], [CHR 0xE2, CHR 0x80, CHR 0x83],
      [CHR 0xE2, CHR 0x80, CHR 0x84], [CHR 0xE2, CHR 0x80, CHR 0x85],
      [CHR 0xE2, CHR 0x80, CHR 0x86], [CHR 0xE2, CHR 0x80, CHR 0x87],
      [CHR 0xE2, CHR 0x80, CHR 0x88], [CHR 0xE2, CHR 0x80, CHR 0x89],
      [CHR 0xE2, CHR 0x80, CHR 0x8A],
      [CHR 0xE2, CHR 0x80, CHR 0xA8], [CHR 0xE2, CHR 0x80, CHR 0xA9],
      [CHR 0xE2, CHR 0x80, CHR 0xAF], [CHR 0xE2, CHR 0x81, CHR 0x9F],
      [CHR 0xE3, CHR 0x80, CHR 0x80]]"

lemma py_whitespace_nonempty: "w \<in> set py_whitespace \<Longrightarrow> w \<noteq> []"
  by (auto simp: py_whitespace_def)

function lstrip :: "string \<Rightarrow> string" where
  "lstrip s =
     (case find (\<lambda>w. prefix w s) py_whitespace of
        None \<Rightarrow> s
      | Some w \<Rightarrow> lstrip (drop (length w) s))"
  by pat_completeness auto
termination
proof (relation "measure length")
  show "wf (measure length)" by simp
next
  fix s w :: string
  assume found: "find (\<lambda>w. prefix w s) py_whitespace = Some w"
  then have "w \<in> set py_whitespace" and "prefix w s"
    by (auto simp: find_Some_iff)
  then have "w \<noteq> []" and "length w \<le> length s"
    by (auto dest: py_whitespace_nonempty prefix_length_le)
  then have "length s - length w < length s"
    by (cases w) auto
  then show "(drop (length w) s, s) \<in> measure length"
    by simp
qed

declare lstrip.simps [simp del]

function rstrip :: "string \<Rightarrow> string" where
  "rstrip s =
     (case find (\<lambda>w. suffix w s) py_whitespace of
        None \<Rightarrow> s
      | Some w \<Rightarrow> rstrip (take (length s - length w) s))"
  by pat_completeness auto
termination
proof (relation "measure length")
  show "wf (measure length)" by simp
next
  fix s w :: string
  assume found: "find (\<lambda>w. suffix w s) py_whitespace = Some w"
  then have "w \<in> set py_whitespace" and "suffix w s"
    by (auto simp: find_Some_iff)
  then have "w \<noteq> []" and "length w \<le> length s"
    by (auto dest: py_whitespace_nonempty suffix_length_le)
  then have "length s - length w < length s"
    by (cases w) auto
  then show "(take (length s - length w) s, s) \<in> measure length"
    by simp
qed

declare rstrip.simps [simp del]

text \<open>\<^verbatim>\<open>s.strip()\<close>\<close>

definition py_strip :: "string \<Rightarrow> string" where
  "py_strip s = rstrip (lstrip s)"

section \<open>SHA-256 (\<^verbatim>\<open>hashlib.sha256\<close>)\<close>

text \<open>
  The digest of FIPS 180-4 on a byte string: the message is padded to a multiple of 64
  bytes, cut into blocks of sixteen big-endian 32-bit words, and each block is compressed
  into the eight-word hash value. Its value on the test vector \<^verbatim>\<open>abc\<close> of the standard
  is computed below (\<open>sha256_abc\<close>).
\<close>

type_synonym hash_value =
  "32 word \<times> 32 word \<times> 32 word \<times> 32 word \<times> 32 word \<times> 32 word \<times> 32 word \<times> 32 word"

definition sha256_k :: "32 word list" where
  "sha256_k =
     concat
       [
         [0x428a2f98, 0x71374491, 0xb5c0fbcf, 0xe9b5dba5],
         [0x3956c25b, 0x59f111f1, 0x923f82a4, 0xab1c5ed5],
         [0xd807aa98, 0x12835b01, 0x243185be, 0x550c7dc3],
         [0x72be5d74, 0x80deb1fe, 0x9bdc06a7, 0xc19bf174],
         [0xe49b69c1, 0xefbe4786, 0x0fc19dc6, 0x240ca1cc],
         [0x2de92c6f, 0x4a7484aa, 0x5cb0a9dc, 0x76f988da],
         [0x983e5152, 0xa831c66d, 0xb00327c8, 0xbf597fc7],
         [0xc6e00bf3, 0xd5a79147, 0x06ca6351, 0x14292967],
         [0x27b70a85, 0x2e1b2138, 0x4d2c6dfc, 0x53380d13],
         [0x650a7354, 0x766a0abb, 0x81c2c92e, 0x92722c85],
         [0xa2bfe8a1, 0xa81a664b, 0xc24b8b70, 0xc76c51a3],
         [0xd192e819, 0xd6990624, 0xf40e3585, 0x106aa070],
         [0x19a4c116, 0x1e376c08, 0x2748774c, 0x34b0bcb5],
         [0x391c0cb3, 0x4ed8aa4a, 0x5b9cca4f, 0x682e6ff3],
         [0x748f82ee, 0x78a5636f, 0x84c87814, 0x8cc70208],
         [0x90befffa, 0xa4506ceb, 0xbef9a3f7, 0xc67178f2]
       ]"

definition sha256_init :: hash_value where
  "sha256_init =
     (0x6a09e667, 0xbb67ae85, 0x3c6ef372, 0xa54ff53a,
      0x510e527f, 0x9b05688c, 0x1f83d9ab, 0x5be0cd19)"

definition sha256_pad :: "string \<Rightarrow> nat list" where
  "sha256_pad m =
     (let n = length m in
      map of_char m @ [0x80] @ replicate ((119 - n mod 64) mod 64) 0
      @ map (\<lambda>i. (8 * n) div 2 ^ (8 * (7 - i)) mod 256) [0..<8])"

fun be_words :: "nat list \<Rightarrow> 32 word list" where
  "be_words (b0 # b1 # b2 # b3 # bs) =
     of_nat (b0 * 2 ^ 24 + b1 * 2 ^ 16 + b2 * 2 ^ 8 + b3) # be_words bs"
| "be_words _ = []"

definition small_sigma0 :: "32 word \<Rightarrow> 32 word" where
  "small_sigma0 x = word_rotr 7 x XOR word_rotr 18 x XOR drop_bit 3 x"

definition small_sigma1 :: "32 word \<Rightarrow> 32 word" where
  "small_sigma1 x = word_rotr 17 x XOR word_rotr 19 x XOR drop_bit 10 x"

definition big_sigma0 :: "32 word \<Rightarrow> 32 word" where
  "big_sigma0 x = word_rotr 2 x XOR word_rotr 13 x XOR word_rotr 22 x"

definition big_sigma1 :: "32 word \<Rightarrow> 32 word" where
  "big_sigma1 x = word_rotr 6 x XOR word_rotr 11 x XOR word_rotr 25 x"

definition ch :: "32 word \<Rightarrow> 32 word \<Rightarrow> 32 word \<Rightarrow> 32 word" where
  "ch x y z = (x AND y) XOR (NOT x AND z)"

definition maj :: "32 word \<Rightarrow> 32 word \<Rightarrow> 32 word \<Rightarrow> 32 word" where
  "maj x y z = (x AND y) XOR (x AND z) XOR (y AND z)"

text \<open>The message schedule: \<open>n\<close> more words after the ones of the block.\<close>

fun schedule :: "nat \<Rightarrow> 32 word list \<Rightarrow> 32 word list" where
  "schedule 0 w = w"
| "schedule (Suc n) w =
     (let t = length w in
      schedule n
        (w @ [small_sigma1 (w ! (t - 2)) + w ! (t - 7) + small_sigma0 (w ! (t - 15)) + w ! (t - 16)]))"

fun sha256_round :: "hash_value \<Rightarrow> 32 word \<times> 32 word \<Rightarrow> hash_value" where
  "sha256_round (a, b, c, d, e, f, g, h) (k, w) =
     (let t1 = h + big_sigma1 e + ch e f g + k + w;
          t2 = big_sigma0 a + maj a b c
      in (t1 + t2, a, b, c, d + t1, e, f, g))"

fun hash_add :: "hash_value \<Rightarrow> hash_value \<Rightarrow> hash_value" where
  "hash_add (a, b, c, d, e, f, g, h) (a', b', c', d', e', f', g', h') =
     (a + a', b + b', c + c', d + d', e + e', f + f', g + g', h + h')"

definition compress :: "hash_value \<Rightarrow> 32 word list \<Rightarrow> hash_value" where
  "compress hv block = hash_add hv (foldl sha256_round hv (zip sha256_k (schedule 48 block)))"

fun sha256_blocks :: "hash_value \<Rightarrow> 32 word list \<Rightarrow> hash_value" where
  "sha256_blocks hv ws =
     (if length ws < 16 then hv
      else sha256_blocks (compress hv (take 16 ws)) (drop 16 ws))"

declare sha256_blocks.simps [simp del]

definition sha256 :: "string \<Rightarrow> hash_value" where
  "sha256 m = sha256_blocks sha256_init (be_words (sha256_pad m))"

definition hex_word :: "32 word \<Rightarrow> string" where
  "hex_word w = map (\<lambda>i. ''0123456789abcdef'' ! unat (drop_bit (4 * (7 - i)) w AND 0xF)) [0..<8]"

fun hexdigest :: "hash_value \<Rightarrow> string" where
  "hexdigest (a, b, c, d, e, f, g, h) =
     hex_word a @ hex_word b @ hex_word c @ hex_word d
     @ hex_word e @ hex_word f @ hex_word g @ hex_word h"

section \<open>The server: \<^verbatim>\<open>BigAkoServer\<close>\<close>

text \<open>
  The two tables of \<^verbatim>\<open>users.db\<close> are lists of rows in insertion order. The database is
  taken to exist with both tables, and a statement fails only by violating a constraint.
\<close>

record user_row =
  user_id :: nat
  user_username :: string
  user_password_hash :: string
  user_salt :: string
  user_created_at :: string

record message_row =
  row_id :: nat
  row_username :: string
  row_message :: string
  row_message_type :: string
  row_file_name :: "string option"
  row_file_size :: "nat option"
  row_timestamp :: string

text \<open>The dictionary built for a message by \<^verbatim>\<open>add_message\<close> and \<^verbatim>\<open>get_recent_messages\<close>.\<close>

record message_dict =
  d_username :: string
  d_message :: string
  d_message_type :: string
  d_file_name :: "string option"
  d_file_size :: "nat option"
  d_timestamp :: string

text \<open>
  The state: the two tables, the attributes \<^verbatim>\<open>message_history\<close> and
  \<^verbatim>\<open>session_tokens\<close> of the server object, and the files of the directory
  \<^verbatim>\<open>uploads\<close> by path.
\<close>

record server =
  users :: "user_row list"
  messages :: "message_row list"
  message_history :: "message_dict list"
  session_tokens :: "string \<rightharpoonup> string"
  uploads :: "string \<rightharpoonup> string"

text \<open>
  What one request reads from outside the program: the random values of
  \<^verbatim>\<open>secrets.token_hex(16)\<close>, \<^verbatim>\<open>secrets.token_hex(32)\<close> and \<^verbatim>\<open>uuid.uuid4()\<close>, the
  database's \<^verbatim>\<open>CURRENT_TIMESTAMP\<close>, \<^verbatim>\<open>datetime.now().isoformat()\<close>, whether
  \<^verbatim>\<open>open(filepath, 'wb')\<close> raises, and the library function \<^verbatim>\<open>urllib.parse.parse_qs\<close>.
\<close>

record env =
  token_hex_16 :: string
  token_hex_32 :: string
  uuid4 :: string
  current_timestamp :: string
  datetime_now :: string
  open_raises :: bool
  parse_qs :: "string \<Rightarrow> (string \<rightharpoonup> string list)"

definition hash_password :: "string \<Rightarrow> string \<Rightarrow> string" where
  "hash_password password salt = hexdigest (sha256 (encode (password @ salt)))"

text \<open>
  \<^verbatim>\<open>INTEGER PRIMARY KEY AUTOINCREMENT\<close>: one more than the largest identifier of the table
  (no row is ever deleted, so this is also the largest identifier the table ever had).
\<close>

definition next_rowid :: "nat list \<Rightarrow> nat" where
  "next_rowid ids = Suc (fold max ids 0)"

text \<open>
  \<^verbatim>\<open>register_user\<close>: the \<^verbatim>\<open>INSERT\<close> raises \<^verbatim>\<open>sqlite3.IntegrityError\<close> when the
  username is already in the table (\<^verbatim>\<open>username TEXT UNIQUE\<close>), and the function returns
  \<^verbatim>\<open>False\<close>.
\<close>

definition register_user :: "server \<Rightarrow> env \<Rightarrow> string \<Rightarrow> string \<Rightarrow> bool \<times> server" where
  "register_user st e username password =
     (let salt = token_hex_16 e;
          password_hash = hash_password password salt
      in if username \<in> set (map user_username (users st)) then (False, st)
         else (True,
               st\<lparr>users := users st @
                  [\<lparr>user_id = next_rowid (map user_id (users st)),
                    user_username = username,
                    user_password_hash = password_hash,
                    user_salt = salt,
                    user_created_at = current_timestamp e\<rparr>]\<rparr>))"

definition verify_user :: "server \<Rightarrow> string \<Rightarrow> string \<Rightarrow> bool" where
  "verify_user st username password =
     (case find (\<lambda>r. user_username r = username) (users st) of
        Some r \<Rightarrow> hash_password password (user_salt r) = user_password_hash r
      | None \<Rightarrow> False)"

definition add_message ::
  "server \<Rightarrow> env \<Rightarrow> string \<Rightarrow> string \<Rightarrow> string \<Rightarrow> string option \<Rightarrow> nat option \<Rightarrow> server" where
  "add_message st e username message message_type file_name file_size =
     (let row = \<lparr>row_id = next_rowid (map row_id (messages st)),
                 row_username = username,
                 row_message = message,
                 row_message_type = message_type,
                 row_file_name = file_name,
                 row_file_size = file_size,
                 row_timestamp = current_timestamp e\<rparr>;
          history = message_history st @
                 [\<lparr>d_username = username,
                   d_message = message,
                   d_message_type = message_type,
                   d_file_name = file_name,
                   d_file_size = file_size,
                   d_timestamp = datetime_now e\<rparr>]
      in st\<lparr>messages := messages st @ [row],
            message_history :=
              (if length history > 100 then drop (length history - 100) history else history)\<rparr>)"

text \<open>\<^verbatim>\<open>ORDER BY id DESC\<close> and \<^verbatim>\<open>LIMIT ?\<close> (a negative limit is no limit).\<close>

definition order_by_id_desc :: "message_row list \<Rightarrow> message_row list" where
  "order_by_id_desc rows = rev (sort_key row_id rows)"

definition sql_limit :: "int \<Rightarrow> 'a list \<Rightarrow> 'a list" where
  "sql_limit n rows = (if n < 0 then rows else take (nat n) rows)"

definition row_dict :: "message_row \<Rightarrow> message_dict" where
  "row_dict r =
     \<lparr>d_username = row_username r,
      d_message = row_message r,
      d_message_type = row_message_type r,
      d_file_name = row_file_name r,
      d_file_size = row_file_size r,
      d_timestamp = row_timestamp r\<rparr>"

definition get_recent_messages :: "server \<Rightarrow> int \<Rightarrow> message_dict list" where
  "get_recent_messages st limit =
     rev (map row_dict (sql_limit limit (order_by_id_desc (messages st))))"

section \<open>The request handler: \<^verbatim>\<open>BigAkoHandler\<close>\<close>

text \<open>
  A request: its path, the headers the handler reads (\<^verbatim>\<open>None\<close> when absent), the value
  of \<^verbatim>\<open>int(self.headers.get('Content-Length', 0))\<close> (\<^verbatim>\<open>ValueError\<close> when the header is
  not an integer), and the bytes waiting on \<^verbatim>\<open>self.rfile\<close>.
\<close>

record request =
  path :: string
  cookie_header :: "string option"
  content_type_header :: "string option"
  content_length :: "py_error + int"
  rfile :: string

text \<open>
  The responses the handler writes. \<^verbatim>\<open>Json\<close> is \<^verbatim>\<open>serve_json\<close> (status 200) with
  \<^verbatim>\<open>{'success': True}\<close>, \<^verbatim>\<open>{'success': False, 'error': ...}\<close>, \<^verbatim>\<open>{'messages': ...}\<close> or
  \<^verbatim>\<open>{'username': ...}\<close>; \<^verbatim>\<open>Send_error\<close> is \<^verbatim>\<open>send_error\<close> with its status code;
  \<^verbatim>\<open>Login_ok\<close> is the 200 response of a login with its \<^verbatim>\<open>Set-Cookie: session=token\<close>;
  \<^verbatim>\<open>Logout_ok\<close> is the 200 response of a logout, which clears the cookie;
  \<^verbatim>\<open>Download\<close> stands for whatever \<^verbatim>\<open>handle_download\<close> writes, which reads the state
  only and is not described further; \<^verbatim>\<open>No_response\<close> is a handler that returns having
  written nothing.
\<close>

datatype json =
    Success
  | Failure string
  | Messages "message_dict list"
  | Username "string option"

datatype response =
    Html string
  | Css
  | Js
  | Redirect string
  | Json json
  | Send_error nat
  | Login_ok string
  | Logout_ok
  | Download string
  | No_response

subsection \<open>Sessions\<close>

text \<open>The loop of \<^verbatim>\<open>get_session_token\<close> over the pieces of the cookie header.\<close>

fun session_part :: "string list \<Rightarrow> string option" where
  "session_part [] = None"
| "session_part (part # parts) =
     (if py_in ''session='' part then Some (py_strip (py_split part ''session='' ! 1))
      else session_part parts)"

definition get_session_token :: "request \<Rightarrow> string option" where
  "get_session_token req =
     (let cookie = (case cookie_header req of Some c \<Rightarrow> c | None \<Rightarrow> [])
      in session_part (py_split cookie '';''))"

definition verify_session :: "server \<Rightarrow> request \<Rightarrow> bool" where
  "verify_session st req =
     (case get_session_token req of
        Some token \<Rightarrow> token \<in> dom (session_tokens st)
      | None \<Rightarrow> False)"

definition get_username_from_session :: "server \<Rightarrow> request \<Rightarrow> string option" where
  "get_username_from_session st req =
     (case get_session_token req of
        Some token \<Rightarrow> session_tokens st token
      | None \<Rightarrow> None)"

subsection \<open>The form handlers\<close>

text \<open>\<^verbatim>\<open>data.get(key, [''])[0]\<close>\<close>

definition form_get :: "(string \<rightharpoonup> string list) \<Rightarrow> string \<Rightarrow> py_error + string" where
  "form_get data k = py_index (case data k of Some vs \<Rightarrow> vs | None \<Rightarrow> [[]]) 0"

definition handle_register ::
  "server \<Rightarrow> env \<Rightarrow> (string \<rightharpoonup> string list) \<Rightarrow> py_error + response \<times> server" where
  "handle_register st e data =
     (case form_get data ''username'' of
        Inl err \<Rightarrow> Inl err
      | Inr username \<Rightarrow>
          (case form_get data ''password'' of
             Inl err \<Rightarrow> Inl err
           | Inr password \<Rightarrow>
               if username \<noteq> [] \<and> password \<noteq> [] then
                 (case register_user st e username password of
                    (True, st') \<Rightarrow> Inr (Json Success, st')
                  | (False, st') \<Rightarrow> Inr (Json (Failure ''Username already exists''), st'))
               else Inr (Json (Failure ''Invalid data''), st)))"

definition handle_login ::
  "server \<Rightarrow> env \<Rightarrow> (string \<rightharpoonup> string list) \<Rightarrow> py_error + response \<times> server" where
  "handle_login st e data =
     (case form_get data ''username'' of
        Inl err \<Rightarrow> Inl err
      | Inr username \<Rightarrow>
          (case form_get data ''password'' of
             Inl err \<Rightarrow> Inl err
           | Inr password \<Rightarrow>
               if username \<noteq> [] \<and> password \<noteq> [] then
                 if verify_user st username password then
                   (let token = token_hex_32 e
                    in Inr (Login_ok token,
                            st\<lparr>session_tokens := (session_tokens st)(token \<mapsto> username)\<rparr>))
                 else Inr (Json (Failure ''Invalid credentials''), st)
               else Inr (Json (Failure ''Invalid data''), st)))"

definition handle_message ::
  "server \<Rightarrow> env \<Rightarrow> request \<Rightarrow> (string \<rightharpoonup> string list) \<Rightarrow> py_error + response \<times> server" where
  "handle_message st e req data =
     (if \<not> verify_session st req then Inr (Send_error 401, st)
      else case form_get data ''message'' of
             Inl err \<Rightarrow> Inl err
           | Inr message \<Rightarrow>
               (case get_username_from_session st req of
                  Some username \<Rightarrow>
                    if message \<noteq> [] \<and> username \<noteq> [] then
                      Inr (Json Success, add_message st e username message ''text'' None None)
                    else Inr (Json (Failure ''Invalid message''), st)
                | None \<Rightarrow> Inr (Json (Failure ''Invalid message''), st)))"

definition handle_logout :: "server \<Rightarrow> request \<Rightarrow> response \<times> server" where
  "handle_logout st req =
     (case get_session_token req of
        Some token \<Rightarrow>
          if token \<in> dom (session_tokens st)
          then (Logout_ok, st\<lparr>session_tokens := (session_tokens st)(token := None)\<rparr>)
          else (Logout_ok, st)
      | None \<Rightarrow> (Logout_ok, st))"

subsection \<open>The upload handler\<close>

definition crlf :: string where
  "crlf = [CHR 0x0D, CHR 0x0A]"

text \<open>
  The variables \<^verbatim>\<open>file_data\<close>, \<^verbatim>\<open>filename\<close> and \<^verbatim>\<open>message_text\<close> of
  \<^verbatim>\<open>handle_multipart\<close>, and the body of its loop for one part. Unpacking the result of
  \<^verbatim>\<open>part.split(b'\r\n\r\n', 1)\<close> into two names raises \<^verbatim>\<open>ValueError\<close> when the part has
  no blank line.
\<close>

type_synonym parts_state = "string option \<times> string option \<times> string"

definition is_file_part :: "string \<Rightarrow> bool" where
  \<open>is_file_part part = (py_in ''name="file"'' part \<and> py_in ''filename="'' part)\<close>

definition is_message_part :: "string \<Rightarrow> bool" where
  \<open>is_message_part part = py_in ''name="message"'' part\<close>

definition decode_part :: "parts_state \<Rightarrow> string \<Rightarrow> py_error + parts_state" where
  \<open>decode_part vars part =
     (case vars of (file_data, filename, message_text) \<Rightarrow>
        if is_file_part part then
          (case py_split1 part (crlf @ crlf) of
             [headers, file_content] \<Rightarrow>
               (let file_content' = hd (py_rsplit1 file_content crlf);
                    filename_start = py_find headers ''filename="'' 0 + 10;
                    filename_end = py_find headers ''"'' (nat filename_start)
                in case decode (py_slice headers filename_start filename_end) of
                     Inl err \<Rightarrow> Inl err
                   | Inr filename' \<Rightarrow> Inr (Some file_content', Some filename', message_text))
           | _ \<Rightarrow> Inl ValueError)
        else if is_message_part part then
          (case py_split1 part (crlf @ crlf) of
             [headers, message_content] \<Rightarrow>
               (case decode (hd (py_rsplit1 message_content crlf)) of
                  Inl err \<Rightarrow> Inl err
                | Inr message_text' \<Rightarrow> Inr (file_data, filename, message_text'))
           | _ \<Rightarrow> Inl ValueError)
        else Inr vars)\<close>

fun decode_parts :: "parts_state \<Rightarrow> string list \<Rightarrow> py_error + parts_state" where
  "decode_parts vars [] = Inr vars"
| "decode_parts vars (part # parts) =
     (case decode_part vars part of
        Inl err \<Rightarrow> Inl err
      | Inr vars' \<Rightarrow> decode_parts vars' parts)"

text \<open>\<^verbatim>\<open>os.path.join(a, b)\<close> on POSIX, for a first component not ending in a slash.\<close>

definition os_path_join :: "string \<Rightarrow> string \<Rightarrow> string" where
  "os_path_join a b = (if prefix ''/'' b then b else a @ ''/'' @ b)"

text \<open>
  The statements of \<^verbatim>\<open>handle_multipart\<close> after the loop, for the values the loop left
  in \<^verbatim>\<open>file_data\<close>, \<^verbatim>\<open>filename\<close> and \<^verbatim>\<open>message_text\<close>.
\<close>

definition store_upload ::
  "server \<Rightarrow> env \<Rightarrow> request \<Rightarrow> parts_state \<Rightarrow> py_error + response \<times> server" where
  "store_upload st e req vars =
     (case vars of
        (Some file_data, Some filename, message_text) \<Rightarrow>
          if file_data \<noteq> [] \<and> filename \<noteq> [] then
            (let file_size = length file_data in
             if file_size > 50 * 1024 * 1024 then Inr (Json (Failure ''File too large''), st)
             else
               (let file_id = uuid4 e;
                    filename' = file_id @ ''_'' @ filename;
                    filepath = os_path_join ''uploads'' filename'
                in if open_raises e then Inl OSError
                   else
                     (let st' = st\<lparr>uploads := (uploads st)(filepath \<mapsto> file_data)\<rparr>
                      in case get_username_from_session st' req of
                           Some username \<Rightarrow>
                             if username \<noteq> [] then
                               Inr (Json Success,
                                    add_message st' e username
                                      (if message_text \<noteq> [] then message_text else ''Shared a file'')
                                      ''file'' (Some filename') (Some file_size))
                             else Inr (Send_error 401, st')
                         | None \<Rightarrow> Inr (Send_error 401, st'))))
          else Inr (No_response, st)
      | _ \<Rightarrow> Inr (No_response, st))"

text \<open>
  The first two statements of \<^verbatim>\<open>handle_multipart\<close>: the boundary is what follows
  \<^verbatim>\<open>boundary=\<close> in the content type (\<^verbatim>\<open>IndexError\<close> when there is none), and the parts
  are the pieces of the body between the delimiters.
\<close>

definition multipart_parts :: "string \<Rightarrow> string \<Rightarrow> py_error + string list" where
  "multipart_parts data content_type =
     (case py_index (py_split content_type ''boundary='') 1 of
        Inl err \<Rightarrow> Inl err
      | Inr boundary \<Rightarrow> Inr (py_split data (''--'' @ encode boundary)))"

text \<open>The decoder: these two statements and the loop over the parts.\<close>

definition decode_multipart :: "string \<Rightarrow> string \<Rightarrow> py_error + parts_state" where
  "decode_multipart data content_type =
     (case multipart_parts data content_type of
        Inl err \<Rightarrow> Inl err
      | Inr parts \<Rightarrow> decode_parts (None, None, []) parts)"

text \<open>The body of the \<^verbatim>\<open>try\<close> statement of \<^verbatim>\<open>handle_multipart\<close>.\<close>

definition multipart_try ::
  "server \<Rightarrow> env \<Rightarrow> request \<Rightarrow> string \<Rightarrow> string \<Rightarrow> py_error + response \<times> server" where
  "multipart_try st e req data content_type =
     (case decode_multipart data content_type of
        Inl err \<Rightarrow> Inl err
      | Inr vars \<Rightarrow> store_upload st e req vars)"

definition handle_multipart ::
  "server \<Rightarrow> env \<Rightarrow> request \<Rightarrow> string \<Rightarrow> string \<Rightarrow> response \<times> server" where
  "handle_multipart st e req data content_type =
     (case multipart_try st e req data content_type of
        Inl err \<Rightarrow> (Json (Failure ''File upload failed''), st)
      | Inr r \<Rightarrow> r)"

subsection \<open>Dispatch\<close>

definition do_GET :: "server \<Rightarrow> request \<Rightarrow> response \<times> server" where
  "do_GET st req =
     (if path req = ''/'' then (Html ''index'', st)
      else if path req = ''/login'' then (Html ''login'', st)
      else if path req = ''/register'' then (Html ''register'', st)
      else if path req = ''/messenger'' then
        (if verify_session st req then (Html ''messenger'', st) else (Redirect ''/login'', st))
      else if path req = ''/api/messages'' then
        (if verify_session st req then (Json (Messages (get_recent_messages st 50)), st)
         else (Send_error 401, st))
      else if prefix ''/download/'' (path req) then (Download (path req), st)
      else if path req = ''/style.css'' then (Css, st)
      else if path req = ''/script.js'' then (Js, st)
      else if path req = ''/api/userinfo'' then
        (if verify_session st req then (Json (Username (get_username_from_session st req)), st)
         else (Send_error 401, st))
      else (Send_error 404, st))"

text \<open>
  \<^verbatim>\<open>do_POST\<close>: an exception that reaches its \<^verbatim>\<open>except\<close> clause is answered with
  \<^verbatim>\<open>send_error(500)\<close>; no handler changes the state before it raises.
\<close>

definition do_POST :: "server \<Rightarrow> env \<Rightarrow> request \<Rightarrow> response \<times> server" where
  "do_POST st e req =
     (case content_length req of
        Inl err \<Rightarrow> (Send_error 500, st)
      | Inr n \<Rightarrow>
          (let post_data = (if n > 0 then take (nat n) (rfile req) else []);
               content_type = (case content_type_header req of Some c \<Rightarrow> c | None \<Rightarrow> [])
           in if py_in ''multipart/form-data'' content_type
              then handle_multipart st e req post_data content_type
              else
                (case decode post_data of
                   Inl err \<Rightarrow> (Send_error 500, st)
                 | Inr body \<Rightarrow>
                     (let data = parse_qs e body;
                          result =
                            (if path req = ''/api/register'' then handle_register st e data
                             else if path req = ''/api/login'' then handle_login st e data
                             else if path req = ''/api/message'' then handle_message st e req data
                             else if path req = ''/api/logout'' then Inr (handle_logout st req)
                             else Inr (Send_error 404, st))
                      in case result of
                           Inl err \<Rightarrow> (Send_error 500, st)
                         | Inr r \<Rightarrow> r))))"

section \<open>Sequences of calls\<close>

text \<open>
  One call of \<^verbatim>\<open>add_message\<close>: what it reads from outside and its five arguments. The row
  and the dictionary it stores, but for the row's identifier, are functions of the call.
\<close>

type_synonym add_call = "env \<times> string \<times> string \<times> string \<times> string option \<times> nat option"

fun add_messages :: "server \<Rightarrow> add_call list \<Rightarrow> server" where
  "add_messages st [] = st"
| "add_messages st ((e, username, message, message_type, file_name, file_size) # calls) =
     add_messages (add_message st e username message message_type file_name file_size) calls"

fun call_history_entry :: "add_call \<Rightarrow> message_dict" where
  "call_history_entry (e, username, message, message_type, file_name, file_size) =
     \<lparr>d_username = username, d_message = message, d_message_type = message_type,
      d_file_name = file_name, d_file_size = file_size, d_timestamp = datetime_now e\<rparr>"

fun call_stored_entry :: "add_call \<Rightarrow> message_dict" where
  "call_stored_entry (e, username, message, message_type, file_name, file_size) =
     \<lparr>d_username = username, d_message = message, d_message_type = message_type,
      d_file_name = file_name, d_file_size = file_size, d_timestamp = current_timestamp e\<rparr>"

section \<open>Predicates and example inputs\<close>

definition example_env :: env where
  "example_env =
     \<lparr>token_hex_16 = ''00112233445566778899aabbccddeeff'',
      token_hex_32 = ''000102030405060708090a0b0c0d0e0f101112131415161718191a1b1c1d1e1f'',
      uuid4 = ''123e4567-e89b-42d3-a456-426614174000'',
      current_timestamp = ''2024-01-01 00:00:00'',
      datetime_now = ''2024-01-01T00:00:00.000000'',
      open_raises = False,
      parse_qs = (\<lambda>qs. Map.empty)\<rparr>"

definition empty_server :: server where
  "empty_server =
     \<lparr>users = [], messages = [], message_history = [],
      session_tokens = Map.empty, uploads = Map.empty\<rparr>"

definition example_call :: "string \<Rightarrow> add_call" where
  "example_call message = (example_env, ''alice'', message, ''text'', None, None)"

text \<open>The strings \<^verbatim>\<open>secrets.token_hex\<close> returns are made of these characters.\<close>

definition hex_string :: "string \<Rightarrow> bool" where
  "hex_string s = (set s \<subseteq> set ''0123456789abcdef'')"

text \<open>No row of kind \<^verbatim>\<open>file\<close> has an empty body.\<close>

definition file_bodies_nonempty :: "server \<Rightarrow> bool" where
  "file_bodies_nonempty st =
     (\<forall>r \<in> set (messages st). row_message_type r = ''file'' \<longrightarrow> row_message r \<noteq> [])"

text \<open>
  A server on which \<open>alice\<close> is registered, the form and the cookie of her login, the
  server after her login, and requests with and without her cookie.
\<close>

definition alice_server :: server where
  "alice_server = snd (register_user empty_server example_env ''alice'' ''secret'')"

definition alice_form :: "string \<rightharpoonup> string list" where
  "alice_form = [''username'' \<mapsto> [''alice''], ''password'' \<mapsto> [''secret'']]"

definition alice_request :: request where
  "alice_request =
     \<lparr>path = ''/api/logout'',
      cookie_header = Some (''session='' @ token_hex_32 example_env),
      content_type_header = None,
      content_length = Inr 0,
      rfile = []\<rparr>"

definition alice_cookie :: "string option" where
  "alice_cookie = Some (''session='' @ token_hex_32 example_env)"

definition logged_in_server :: server where
  "logged_in_server = alice_server\<lparr>session_tokens := [token_hex_32 example_env \<mapsto> ''alice'']\<rparr>"

definition upload_content_type :: string where
  "upload_content_type = ''multipart/form-data; boundary=boundary42''"

definition upload_request :: "string option \<Rightarrow> string \<Rightarrow> request" where
  "upload_request cookie body =
     \<lparr>path = ''/api/message'',
      cookie_header = cookie,
      content_type_header = Some upload_content_type,
      content_length = Inr (int (length body)),
      rfile = body\<rparr>"

definition anonymous_post :: request where
  "anonymous_post =
     \<lparr>path = ''/api/message'',
      cookie_header = None,
      content_type_header = Some ''application/x-www-form-urlencoded'',
      content_length = Inr 13,
      rfile = ''message=hello''\<rparr>"

definition anonymous_logout :: request where
  "anonymous_logout =
     \<lparr>path = ''/api/logout'',
      cookie_header = None,
      content_type_header = None,
      content_length = Inr 0,
      rfile = []\<rparr>"

text \<open>
  Multipart bodies for the boundary \<^verbatim>\<open>boundary42\<close>: a file and a text, the same with no
  \<^verbatim>\<open>filename\<close> marker on the file part, a file alone, and a text alone.
\<close>

definition photo_body :: string where
  \<open>photo_body =
     ''--boundary42'' @ crlf
     @ ''Content-Disposition: form-data; name="file"; filename="photo.png"'' @ crlf
     @ ''Content-Type: image/png'' @ crlf @ crlf
     @ ''0123456789'' @ crlf
     @ ''--boundary42'' @ crlf
     @ ''Content-Disposition: form-data; name="message"'' @ crlf @ crlf
     @ ''hello'' @ crlf
     @ ''--boundary42--'' @ crlf\<close>


definition photo_only_body :: string where
  \<open>photo_only_body =
     ''--boundary42'' @ crlf
     @ ''Content-Disposition: form-data; name="file"; filename="photo.png"'' @ crlf
     @ ''Content-Type: image/png'' @ crlf @ crlf
     @ ''0123456789'' @ crlf
     @ ''--boundary42--'' @ crlf\<close>

definition text_body :: string where
  \<open>text_body =
     ''--boundary42'' @ crlf
     @ ''Content-Disposition: form-data; name="message"'' @ crlf @ crlf
     @ ''hello'' @ crlf
     @ ''--boundary42--'' @ crlf\<close>

text \<open>
  One byte more than 50 MiB, and two bodies whose file part carries \<open>n\<close> bytes: one with
  a file name and one with the empty file name.
\<close>

definition oversized :: nat where
  "oversized = 50 * 1024 * 1024 + 1"

definition big_body :: "nat \<Rightarrow> string" where
  \<open>big_body n =
     ''--boundary42'' @ crlf
     @ ''Content-Disposition: form-data; name="file"; filename="big.bin"'' @ crlf
     @ ''Content-Type: application/octet-stream'' @ crlf @ crlf
     @ replicate n CHR ''a'' @ crlf
     @ ''--boundary42--'' @ crlf\<close>

definition untitled_body :: "nat \<Rightarrow> string" where
  \<open>untitled_body n =
     ''--boundary42'' @ crlf
     @ ''Content-Disposition: form-data; name="file"; filename=""'' @ crlf
     @ ''Content-Type: application/octet-stream'' @ crlf @ crlf
     @ replicate n CHR ''a'' @ crlf
     @ ''--boundary42--'' @ crlf\<close>

section \<open>The Python operations on examples\<close>

lemma python_string_examples:
  "py_split ''a;b;;c'' '';'' = [''a'', ''b'', [], ''c'']"
  "py_split [] '';'' = [[]]"
  "py_split ''xsession=1session=2'' ''session='' = [''x'', ''1'', ''2'']"
  "py_split1 ''ab--cd--e'' ''--'' = [''ab'', ''cd--e'']"
  "py_split1 ''abc'' ''--'' = [''abc'']"
  "py_rsplit1 ''ab--cd--e'' ''--'' = [''ab--cd'', ''e'']"
  "py_find ''hello'' ''l'' 3 = 3"
  "py_find ''hello'' ''l'' 4 = - 1"
  "py_slice ''hello world'' 2 (- 1) = ''llo worl''"
  "py_slice ''hello world'' 9 5 = []"
  "py_in ''lo w'' ''hello world''"
  "py_strip '' a b  '' = ''a b''"
  by code_simp+

lemma utf8_examples:
  "utf8_valid ''hello''"
  "utf8_valid [CHR 0xC3, CHR 0xA9]"
  "\<not> utf8_valid [CHR 0xC0, CHR 0x80]"
  "\<not> utf8_valid [CHR 0xED, CHR 0xA0, CHR 0x80]"
  "\<not> utf8_valid [CHR 0xF4, CHR 0x90, CHR 0x80, CHR 0x80]"
  "\<not> utf8_valid [CHR 0xFF]"
  by code_simp+

section \<open>The recent-message mirror\<close>

lemma message_history_add_message:
  "message_history (add_message st e u m t fnm fsz) =
     (let h = message_history st @ [call_history_entry (e, u, m, t, fnm, fsz)]
      in drop (length h - 100) h)"
  by (simp add: add_message_def Let_def)

lemma message_history_add_messages:
  "length (message_history st) \<le> 100 \<Longrightarrow>
   message_history (add_messages st calls) =
     drop (length (message_history st) + length calls - 100)
       (message_history st @ map call_history_entry calls)"
proof (induction calls arbitrary: st)
  case Nil
  then show ?case by simp
next
  case (Cons c calls)
  obtain e u m t fnm fsz where c: "c = (e, u, m, t, fnm, fsz)"
    by (cases c) auto
  let ?st = "add_message st e u m t fnm fsz"
  let ?h = "message_history st"
  have h': "message_history ?st = drop (Suc (length ?h) - 100) (?h @ [call_history_entry c])"
    by (simp add: message_history_add_message c Let_def)
  then have len: "length (message_history ?st) = min (Suc (length ?h)) 100"
    by (simp add: min_def)
  then have "length (message_history ?st) \<le> 100"
    by simp
  from Cons.IH [OF this]
  have "message_history (add_messages ?st calls) =
          drop (length (message_history ?st) + length calls - 100)
            (message_history ?st @ map call_history_entry calls)" .
  also have "\<dots> = drop (length ?h + length (c # calls) - 100)
                    (?h @ map call_history_entry (c # calls))"
  proof (cases "length ?h < 100")
    case True
    then show ?thesis using h' by simp
  next
    case False
    with Cons.prems have eq: "length ?h = 100" by simp
    then have "message_history ?st = drop 1 ?h @ [call_history_entry c]"
      using h' by simp
    then show ?thesis using eq by (simp add: drop_Suc drop_tl)
  qed
  finally show ?case by (simp add: c)
qed

text \<open>
  Claim C4. Starting from an empty mirror, after any sequence of \<open>n\<close> calls of
  \<^verbatim>\<open>add_message\<close> the mirror \<^verbatim>\<open>message_history\<close> holds \<open>min n 100\<close> entries, at most 100,
  and they are exactly the entries of the last \<open>min n 100\<close> calls, in the order of the
  calls: the oldest entries are the ones dropped. Every prefix of a sequence of calls is
  a sequence of calls, so this holds after each call.
\<close>

theorem mirror_holds_last_100:
  assumes "message_history st = []"
  shows "length (message_history (add_messages st calls)) = min (length calls) 100
       \<and> length (message_history (add_messages st calls)) \<le> 100
       \<and> message_history (add_messages st calls) =
           drop (length calls - 100) (map call_history_entry calls)"
proof -
  have "message_history (add_messages st calls) =
          drop (length calls - 100) (map call_history_entry calls)"
    using message_history_add_messages [of st calls] assms by simp
  then show ?thesis by (simp add: min_def)
qed

theorem mirror_holds_last_100_witness:
  "message_history empty_server = []
   \<and> length (message_history (add_messages empty_server
        (replicate 100 (example_call ''old'') @ [example_call ''new'']))) = 100
   \<and> message_history (add_messages empty_server
        (replicate 100 (example_call ''old'') @ [example_call ''new''])) =
       replicate 99 (call_history_entry (example_call ''old''))
       @ [call_history_entry (example_call ''new'')]"
proof -
  have e: "message_history empty_server = []"
    by (simp add: empty_server_def)
  have d: "drop (Suc 0) (replicate 100 x) = replicate 99 x" for x :: message_dict
    by simp
  show ?thesis
    using mirror_holds_last_100 [OF e, of "replicate 100 (example_call ''old'') @ [example_call ''new'']"] e
    by (simp add: d)
qed

section \<open>The message store\<close>

lemma fold_max_ge: "a \<le> fold max ids (a::nat)"
  by (induction ids arbitrary: a) (auto intro: order_trans [OF max.cobounded2])

lemma fold_max_mem: "x \<in> set ids \<Longrightarrow> x \<le> fold max ids (a::nat)"
proof (induction ids arbitrary: a)
  case Nil
  then show ?case by simp
next
  case (Cons i ids)
  show ?case
  proof (cases "x = i")
    case True
    have "x \<le> max x a" by simp
    also have "\<dots> \<le> fold max ids (max x a)" by (rule fold_max_ge)
    finally show ?thesis using True by simp
  next
    case False
    with Cons.prems have "x \<in> set ids" by simp
    then show ?thesis using Cons.IH by simp
  qed
qed

lemma next_rowid_fresh: "x \<in> set ids \<Longrightarrow> x < next_rowid ids"
  by (simp add: next_rowid_def fold_max_mem less_Suc_eq_le)

lemma messages_add_message:
  "messages (add_message st e u m t fnm fsz) =
     messages st @
       [\<lparr>row_id = next_rowid (map row_id (messages st)), row_username = u, row_message = m,
         row_message_type = t, row_file_name = fnm, row_file_size = fsz,
         row_timestamp = current_timestamp e\<rparr>]"
  by (simp add: add_message_def Let_def)

lemma messages_add_messages:
  "\<exists>rows. messages (add_messages st calls) = messages st @ rows
        \<and> map row_dict rows = map call_stored_entry calls
        \<and> sorted_wrt (<) (map row_id rows)
        \<and> (\<forall>r \<in> set rows. \<forall>r' \<in> set (messages st). row_id r' < row_id r)"
proof (induction calls arbitrary: st)
  case Nil
  then show ?case by simp
next
  case (Cons c calls)
  obtain e u m t fnm fsz where c: "c = (e, u, m, t, fnm, fsz)"
    by (cases c) auto
  let ?st = "add_message st e u m t fnm fsz"
  let ?row = "\<lparr>row_id = next_rowid (map row_id (messages st)), row_username = u, row_message = m,
         row_message_type = t, row_file_name = fnm, row_file_size = fsz,
         row_timestamp = current_timestamp e\<rparr>"
  have st': "messages ?st = messages st @ [?row]"
    by (rule messages_add_message)
  from Cons.IH [of ?st] obtain rows where
    rows: "messages (add_messages ?st calls) = messages ?st @ rows"
      "map row_dict rows = map call_stored_entry calls"
      "sorted_wrt (<) (map row_id rows)"
      "\<forall>r \<in> set rows. \<forall>r' \<in> set (messages ?st). row_id r' < row_id r"
    by blast
  have fresh: "\<forall>r' \<in> set (messages st). row_id r' < row_id ?row"
    by (simp add: next_rowid_fresh)
  have 1: "messages (add_messages st (c # calls)) = messages st @ (?row # rows)"
    using rows(1) st' by (simp add: c)
  have 2: "map row_dict (?row # rows) = map call_stored_entry (c # calls)"
    using rows(2) by (simp add: c row_dict_def)
  have 3: "sorted_wrt (<) (map row_id (?row # rows))"
    using rows(3) rows(4) st' by simp
  have 4: "\<forall>r \<in> set (?row # rows). \<forall>r' \<in> set (messages st). row_id r' < row_id r"
    using rows(4) st' fresh by simp
  from 1 2 3 4 show ?case by blast
qed

lemma insort_key_below:
  "\<forall>y \<in> set ys. f x < f y \<Longrightarrow> insort_key f x (zs @ ys) = insort_key f x zs @ ys"
proof (induction zs)
  case Nil
  then show ?case by (cases ys) auto
next
  case (Cons z zs)
  then show ?case by simp
qed

lemma sort_key_append_above:
  fixes f :: "'a \<Rightarrow> nat"
  assumes "sorted_wrt (<) (map f ys)" and "\<forall>y \<in> set ys. \<forall>x \<in> set xs. f x < f y"
  shows "sort_key f (xs @ ys) = sort_key f xs @ ys"
  using assms(2)
proof (induction xs)
  case Nil
  have "sorted_wrt (\<lambda>x y. f x < f y) ys"
    using assms(1) by (simp add: sorted_wrt_map)
  then have "sorted_wrt (\<lambda>x y. f x \<le> f y) ys"
    by (rule sorted_wrt_mono_rel [rotated]) simp
  then have "sorted (map f ys)"
    by (simp add: sorted_wrt_map)
  then show ?case by (simp add: sort_key_id_if_sorted)
next
  case (Cons x xs)
  then have "sort_key f (xs @ ys) = sort_key f xs @ ys" by simp
  moreover have "\<forall>y \<in> set ys. f x < f y" using Cons.prems by simp
  ultimately show ?case by (simp add: sort_key_def insort_key_below)
qed

lemma recent_is_tail:
  "0 \<le> limit \<Longrightarrow>
   get_recent_messages st limit =
     map row_dict (drop (length (messages st) - nat limit) (sort_key row_id (messages st)))"
  by (simp add: get_recent_messages_def sql_limit_def order_by_id_desc_def rev_map [symmetric]
        take_rev)

lemma order_by_id_desc_sorted:
  "sorted (rev (map row_id (order_by_id_desc rows))) \<and> mset (order_by_id_desc rows) = mset rows"
  by (simp add: order_by_id_desc_def rev_map [symmetric])

text \<open>
  Claim C3. \<^verbatim>\<open>get_recent_messages(limit)\<close>, for a limit that is not negative, reads the rows
  of the table by identifier descending (\<open>order_by_id_desc\<close> is a rearrangement of the table whose
  identifiers fall), keeps the first \<open>limit\<close> of them, and returns their dictionaries
  reversed, oldest first: at most \<open>limit\<close> entries. After any \<open>n\<close> calls of
  \<^verbatim>\<open>add_message\<close> on any table, the table is the old one followed by \<open>n\<close> new rows whose
  identifiers strictly increase, and \<^verbatim>\<open>get_recent_messages(n)\<close> returns the \<open>n\<close> added
  messages in the order of the calls.
\<close>

theorem recent_returns_appended:
  "(0 \<le> limit \<longrightarrow>
      get_recent_messages st limit =
        rev (map row_dict (take (nat limit) (order_by_id_desc (messages st))))
      \<and> sorted (rev (map row_id (order_by_id_desc (messages st))))
      \<and> mset (order_by_id_desc (messages st)) = mset (messages st)
      \<and> length (get_recent_messages st limit) \<le> nat limit)
   \<and> (\<exists>rows. messages (add_messages st calls) = messages st @ rows
         \<and> length rows = length calls
         \<and> map row_dict rows = map call_stored_entry calls
         \<and> sorted_wrt (<) (map row_id rows))
   \<and> get_recent_messages (add_messages st calls) (int (length calls)) =
       map call_stored_entry calls"
proof -
  have a: "get_recent_messages st limit =
             rev (map row_dict (take (nat limit) (order_by_id_desc (messages st))))
           \<and> length (get_recent_messages st limit) \<le> nat limit" if "0 \<le> limit"
    using that by (simp add: get_recent_messages_def sql_limit_def)
  obtain rows where rows:
    "messages (add_messages st calls) = messages st @ rows"
    "map row_dict rows = map call_stored_entry calls"
    "sorted_wrt (<) (map row_id rows)"
    "\<forall>r \<in> set rows. \<forall>r' \<in> set (messages st). row_id r' < row_id r"
    using messages_add_messages [of st calls] by blast
  from rows(2) have len: "length rows = length calls"
    by (metis length_map)
  have sorted_all: "sort_key row_id (messages st @ rows) = sort_key row_id (messages st) @ rows"
    using rows(3) rows(4) by (rule sort_key_append_above)
  have "get_recent_messages (add_messages st calls) (int (length calls)) =
          map row_dict (drop (length (messages st @ rows) - length calls)
            (sort_key row_id (messages st @ rows)))"
    using recent_is_tail [of "int (length calls)" "add_messages st calls"] rows(1) by simp
  also have "\<dots> = map row_dict rows"
    by (simp add: sorted_all len)
  finally have c: "get_recent_messages (add_messages st calls) (int (length calls)) =
                     map call_stored_entry calls"
    using rows(2) by simp
  from a rows(1) rows(2) rows(3) len c order_by_id_desc_sorted [of "messages st"]
  show ?thesis by blast
qed

theorem recent_returns_appended_witness:
  "(0::int) \<le> 1
   \<and> length (get_recent_messages
        (add_messages empty_server [example_call ''first'', example_call ''second'']) 1) \<le> 1
   \<and> get_recent_messages
        (add_messages empty_server [example_call ''first'', example_call ''second'']) 2 =
       [call_stored_entry (example_call ''first''), call_stored_entry (example_call ''second'')]"
  using
    recent_returns_appended [of 1
      "add_messages empty_server [example_call ''first'', example_call ''second'']" "[]"]
    recent_returns_appended [of 1 empty_server
      "[example_call ''first'', example_call ''second'']"]
  by simp

section \<open>The credential store\<close>

lemma find_append_first:
  "find P (xs @ ys) = (case find P xs of Some x \<Rightarrow> Some x | None \<Rightarrow> find P ys)"
  by (induction xs) auto

lemma find_no_username:
  "u \<notin> set (map user_username rows) \<Longrightarrow> find (\<lambda>r. user_username r = u) rows = None"
  by (induction rows) auto

lemma register_user_taken:
  "u \<in> set (map user_username (users st)) \<Longrightarrow> register_user st e u pw = (False, st)"
  by (simp add: register_user_def Let_def)

lemma register_user_fresh:
  "u \<notin> set (map user_username (users st)) \<Longrightarrow>
   register_user st e u pw =
     (True, st\<lparr>users := users st @
        [\<lparr>user_id = next_rowid (map user_id (users st)), user_username = u,
          user_password_hash = hash_password pw (token_hex_16 e),
          user_salt = token_hex_16 e, user_created_at = current_timestamp e\<rparr>]\<rparr>)"
  by (simp add: register_user_def Let_def)

lemma register_user_True:
  assumes "register_user st e u pw = (True, st')"
  shows "u \<notin> set (map user_username (users st))"
    and "st' = st\<lparr>users := users st @
        [\<lparr>user_id = next_rowid (map user_id (users st)), user_username = u,
          user_password_hash = hash_password pw (token_hex_16 e),
          user_salt = token_hex_16 e, user_created_at = current_timestamp e\<rparr>]\<rparr>"
  using assms by (auto simp: register_user_def Let_def split: if_splits)

lemma verify_after_register:
  assumes "register_user st e u pw = (True, st')" and "users st'' = users st' @ later"
  shows "verify_user st'' u pw' =
           (hash_password pw' (token_hex_16 e) = hash_password pw (token_hex_16 e))"
proof -
  from register_user_True [OF assms(1)]
  have fresh: "u \<notin> set (map user_username (users st))"
    and st': "users st' = users st @
        [\<lparr>user_id = next_rowid (map user_id (users st)), user_username = u,
          user_password_hash = hash_password pw (token_hex_16 e),
          user_salt = token_hex_16 e, user_created_at = current_timestamp e\<rparr>]"
    by simp_all
  show ?thesis
    by (simp add: verify_user_def assms(2) st' find_append_first find_no_username [OF fresh])
qed


subsection \<open>Digests of examples\<close>

text \<open>
  A message of at most 55 bytes is padded to one block, and its hash value is one
  compression of the initial hash value.
\<close>

lemma replicate_numeral_Cons: "replicate (numeral k) x = x # replicate (pred_numeral k) x"
  by (simp add: numeral_eq_Suc)

lemma sha256_one_block: "length ws = 16 \<Longrightarrow> sha256_blocks hv ws = compress hv ws"
  by (subst sha256_blocks.simps, subst sha256_blocks.simps) simp

text \<open>The test vector \<^verbatim>\<open>abc\<close> of FIPS 180-4.\<close>

lemma pad_abc:
  "be_words (sha256_pad ''abc'') = [0x61626380, 0, 0, 0, 0, 0, 0, 0, 0, 0, 0, 0, 0, 0, 0, 0x18]"
  by (simp add: sha256_pad_def upt_rec replicate_numeral_Cons)

lemma compress_abc:
  "hexdigest (compress sha256_init [0x61626380, 0, 0, 0, 0, 0, 0, 0, 0, 0, 0, 0, 0, 0, 0, 0x18]) =
   ''ba7816bf8f01cfea414140de5dae2223b00361a396177a9cb410ff61f20015ad''"
  by code_simp

lemma sha256_abc:
  "hexdigest (sha256 ''abc'') =
     ''ba7816bf8f01cfea414140de5dae2223b00361a396177a9cb410ff61f20015ad''"
  by (simp only: sha256_def pad_abc) (simp add: sha256_one_block compress_abc)







subsection \<open>Registering and verifying\<close>



text \<open>
  Claim C7. Calling \<^verbatim>\<open>register_user\<close> twice with one username, the second call returns
  \<^verbatim>\<open>False\<close> whatever its password (\<^verbatim>\<open>handle_register\<close> then answers
  \<^verbatim>\<open>Username already exists\<close>) and leaves the whole state as the first call left it; the
  account the first call created still verifies with its password.
\<close>

theorem register_twice_username_taken:
  "register_user (snd (register_user st e1 u pw1)) e2 u pw2 =
     (False, snd (register_user st e1 u pw1))
   \<and> (pw2 \<noteq> [] \<and> u \<noteq> [] \<and> data ''username'' = Some [u] \<and> data ''password'' = Some [pw2] \<longrightarrow>
        handle_register (snd (register_user st e1 u pw1)) e2 data =
          Inr (Json (Failure ''Username already exists''), snd (register_user st e1 u pw1)))
   \<and> (fst (register_user st e1 u pw1) \<longrightarrow>
        verify_user (snd (register_user st e1 u pw1)) u pw1
        \<and> verify_user (snd (register_user (snd (register_user st e1 u pw1)) e2 u pw2)) u pw1)"
proof -
  let ?st1 = "snd (register_user st e1 u pw1)"
  have present: "u \<in> set (map user_username (users ?st1))"
    by (cases "u \<in> set (map user_username (users st))")
      (simp_all add: register_user_taken register_user_fresh)
  then have second: "register_user ?st1 e2 u pw2 = (False, ?st1)"
    by (rule register_user_taken)
  have handler: "handle_register ?st1 e2 data = Inr (Json (Failure ''Username already exists''), ?st1)"
    if "pw2 \<noteq> []" "u \<noteq> []" "data ''username'' = Some [u]" "data ''password'' = Some [pw2]"
    using that second by (simp add: handle_register_def form_get_def py_index_def)
  have verifies: "verify_user ?st1 u pw1" if "fst (register_user st e1 u pw1)"
  proof -
    from that have reg: "register_user st e1 u pw1 = (True, ?st1)"
      by (cases "register_user st e1 u pw1") simp
    show ?thesis
      using verify_after_register [OF reg, of ?st1 "[]" pw1] by simp
  qed
  from second handler verifies show ?thesis by simp
qed

theorem register_twice_username_taken_witness:
  "''other'' \<noteq> [] \<and> ''alice'' \<noteq> []
   \<and> [''username'' \<mapsto> [''alice''], ''password'' \<mapsto> [''other'']] ''username'' = Some [''alice'']
   \<and> [''username'' \<mapsto> [''alice''], ''password'' \<mapsto> [''other'']] ''password'' = Some [''other'']
   \<and> fst (register_user empty_server example_env ''alice'' ''secret'')
   \<and> handle_register (snd (register_user empty_server example_env ''alice'' ''secret''))
        example_env [''username'' \<mapsto> [''alice''], ''password'' \<mapsto> [''other'']] =
       Inr (Json (Failure ''Username already exists''),
            snd (register_user empty_server example_env ''alice'' ''secret''))
   \<and> verify_user (snd (register_user empty_server example_env ''alice'' ''secret''))
        ''alice'' ''secret''"
proof -
  have reg: "fst (register_user empty_server example_env ''alice'' ''secret'')"
    by (simp add: register_user_fresh empty_server_def)
  from register_twice_username_taken [of empty_server example_env "''alice''" "''secret''"
      example_env "''other''" "[''username'' \<mapsto> [''alice''], ''password'' \<mapsto> [''other'']]"] reg
  show ?thesis by simp
qed

section \<open>Sessions\<close>

lemma find_sub_prefix: "prefix sub s \<Longrightarrow> find_sub sub s = Some 0"
  by (cases s) auto

lemma find_sub_absent_head: "sep \<noteq> [] \<Longrightarrow> hd sep \<notin> set s \<Longrightarrow> find_sub sep s = None"
proof (induction s)
  case Nil
  then show ?case by simp
next
  case (Cons c cs)
  from Cons.prems have "\<not> prefix sep (c # cs)"
    by (cases sep) auto
  with Cons show ?case by simp
qed

lemma py_split_absent: "find_sub sep s = None \<Longrightarrow> py_split s sep = [s]"
  by (simp add: py_split.simps)

lemma py_split_found:
  "sep \<noteq> [] \<Longrightarrow> find_sub sep s = Some i \<Longrightarrow>
   py_split s sep = take i s # py_split (drop (i + length sep) s) sep"
  by (subst py_split.simps) simp

lemma py_split_length: "py_in sep s \<Longrightarrow> sep \<noteq> [] \<Longrightarrow> 1 < length (py_split s sep)"
proof -
  assume "py_in sep s" and sep: "sep \<noteq> []"
  then obtain i where i: "find_sub sep s = Some i"
    by (auto simp: py_in_def)
  have "py_split (drop (i + length sep) s) sep \<noteq> []"
    by (subst py_split.simps) (simp split: option.splits)
  then show ?thesis
    using py_split_found [OF sep i] by (cases "py_split (drop (i + length sep) s) sep") auto
qed

lemma lstrip_id: "(\<forall>w \<in> set py_whitespace. \<not> prefix w s) \<Longrightarrow> lstrip s = s"
proof -
  assume "\<forall>w \<in> set py_whitespace. \<not> prefix w s"
  then have "find (\<lambda>w. prefix w s) py_whitespace = None"
    by (simp add: find_None_iff)
  then show ?thesis by (simp add: lstrip.simps)
qed

lemma rstrip_id: "(\<forall>w \<in> set py_whitespace. \<not> suffix w s) \<Longrightarrow> rstrip s = s"
proof -
  assume "\<forall>w \<in> set py_whitespace. \<not> suffix w s"
  then have "find (\<lambda>w. suffix w s) py_whitespace = None"
    by (simp add: find_None_iff)
  then show ?thesis by (simp add: rstrip.simps)
qed

lemma whitespace_not_hex:
  "\<forall>w \<in> set py_whitespace.
     hd w \<notin> set ''0123456789abcdef'' \<and> last w \<notin> set ''0123456789abcdef''"
  by (simp add: py_whitespace_def)

lemma py_strip_hex: "hex_string s \<Longrightarrow> py_strip s = s"
proof -
  assume hex: "hex_string s"
  have "\<not> prefix w s" if w: "w \<in> set py_whitespace" for w
  proof
    assume "prefix w s"
    moreover from w have "w \<noteq> []" by (rule py_whitespace_nonempty)
    ultimately have "hd w \<in> set s"
      by (cases w; cases s) auto
    with hex whitespace_not_hex w show False
      by (auto simp: hex_string_def)
  qed
  moreover have "\<not> suffix w s" if w: "w \<in> set py_whitespace" for w
  proof
    assume "suffix w s"
    then obtain zs where "s = zs @ w" by (auto simp: suffix_def)
    moreover from w have "w \<noteq> []" by (rule py_whitespace_nonempty)
    ultimately have "last w \<in> set s"
      by simp
    with hex whitespace_not_hex w show False
      by (auto simp: hex_string_def)
  qed
  ultimately show ?thesis
    by (simp add: py_strip_def lstrip_id rstrip_id)
qed

lemma session_cookie_token:
  assumes "hex_string token" and "cookie_header req = Some (''session='' @ token)"
  shows "get_session_token req = Some token"
proof -
  define c where "c = ''session='' @ token"
  from assms(1) have semi: "CHR '';'' \<notin> set c"
    and s: "CHR ''s'' \<notin> set token"
    by (auto simp: hex_string_def c_def)
  have 1: "py_split c '';'' = [c]"
    using semi by (intro py_split_absent find_sub_absent_head) simp_all
  have 2: "py_in ''session='' c"
    by (simp add: py_in_def find_sub_prefix c_def)
  have "find_sub ''session='' token = None"
    using s by (intro find_sub_absent_head) simp_all
  then have 3: "py_split c ''session='' = [[], token]"
    using py_split_found [of "''session=''" c 0]
    by (simp add: find_sub_prefix py_split_absent c_def)
  have "get_session_token req = session_part (py_split c '';'')"
    by (simp add: get_session_token_def assms(2) c_def)
  also have "\<dots> = Some (py_strip (py_split c ''session='' ! 1))"
    using 2 by (simp add: 1)
  also have "\<dots> = Some token"
    by (simp add: 3 py_strip_hex [OF assms(1)])
  finally show ?thesis .
qed

lemma alice_server_verifies: "verify_user alice_server ''alice'' ''secret''"
proof -
  have reg: "register_user empty_server example_env ''alice'' ''secret'' = (True, alice_server)"
    by (simp add: register_user_fresh empty_server_def alice_server_def)
  show ?thesis
    using verify_after_register [OF reg, of alice_server "[]" "''secret''"] by simp
qed

lemma alice_request_token: "get_session_token alice_request = Some (token_hex_32 example_env)"
  by (rule session_cookie_token)
    (simp_all add: hex_string_def example_env_def alice_request_def)

text \<open>
  Claim C8. A login with valid credentials for \<open>u\<close> stores a new token for \<open>u\<close> and
  returns it; a request carrying that token then resolves to \<open>u\<close>
  (\<^verbatim>\<open>get_username_from_session\<close>). After \<^verbatim>\<open>handle_logout\<close> with the token it resolves to
  nothing, and a second logout answers as the first and changes nothing. In general a
  logout whose token is not in \<^verbatim>\<open>session_tokens\<close> (or that carries no token) leaves the
  whole state as it was and answers as any logout.
\<close>

theorem session_issue_resolve_revoke:
  assumes "data ''username'' = Some [u]" and "data ''password'' = Some [pw]"
    and "u \<noteq> []" and "pw \<noteq> []"
    and "verify_user st u pw"
    and "get_session_token req = Some (token_hex_32 e)"
  shows "(\<exists>st1 st2.
            handle_login st e data = Inr (Login_ok (token_hex_32 e), st1)
          \<and> get_username_from_session st1 req = Some u
          \<and> handle_logout st1 req = (Logout_ok, st2)
          \<and> get_username_from_session st2 req = None
          \<and> handle_logout st2 req = (Logout_ok, st2))
       \<and> (\<forall>s r. get_username_from_session s r = None \<longrightarrow> handle_logout s r = (Logout_ok, s))"
proof -
  let ?tok = "token_hex_32 e"
  let ?st1 = "st\<lparr>session_tokens := (session_tokens st)(?tok \<mapsto> u)\<rparr>"
  let ?st2 = "?st1\<lparr>session_tokens := (session_tokens ?st1)(?tok := None)\<rparr>"
  have login: "handle_login st e data = Inr (Login_ok ?tok, ?st1)"
    using assms(1-5) by (simp add: handle_login_def form_get_def py_index_def Let_def)
  have resolve: "get_username_from_session ?st1 req = Some u"
    using assms(6) by (simp add: get_username_from_session_def)
  have logout: "handle_logout ?st1 req = (Logout_ok, ?st2)"
    using assms(6) by (simp add: handle_logout_def)
  have gone: "get_username_from_session ?st2 req = None"
    using assms(6) by (simp add: get_username_from_session_def)
  have absent: "handle_logout s r = (Logout_ok, s)"
    if "get_username_from_session s r = None" for s r
    using that
    by (auto simp: handle_logout_def get_username_from_session_def split: option.splits)
  from login resolve logout gone absent [OF gone] absent
  show ?thesis by blast
qed

theorem session_issue_resolve_revoke_witness:
  "alice_form ''username'' = Some [''alice''] \<and> alice_form ''password'' = Some [''secret'']
   \<and> verify_user alice_server ''alice'' ''secret''
   \<and> get_session_token alice_request = Some (token_hex_32 example_env)
   \<and> (\<exists>st1 st2.
          handle_login alice_server example_env alice_form =
            Inr (Login_ok (token_hex_32 example_env), st1)
        \<and> get_username_from_session st1 alice_request = Some ''alice''
        \<and> handle_logout st1 alice_request = (Logout_ok, st2)
        \<and> get_username_from_session st2 alice_request = None
        \<and> handle_logout st2 alice_request = (Logout_ok, st2))"
proof -
  have f: "alice_form ''username'' = Some [''alice'']" "alice_form ''password'' = Some [''secret'']"
    by (simp_all add: alice_form_def)
  have n: "''alice'' \<noteq> []" "''secret'' \<noteq> []"
    by simp_all
  from session_issue_resolve_revoke [OF f n alice_server_verifies alice_request_token]
    f alice_server_verifies alice_request_token
  show ?thesis by blast
qed

section \<open>Uploads\<close>

lemma find_sub_replicate:
  "sep \<noteq> [] \<Longrightarrow> hd sep \<noteq> c \<Longrightarrow>
   find_sub sep (replicate n c @ rest) = map_option (\<lambda>i. n + i) (find_sub sep rest)"
proof (induction n)
  case 0
  then show ?case by (simp add: option.map_ident)
next
  case (Suc n)
  then have "\<not> prefix sep (c # replicate n c @ rest)"
    by (cases sep) auto
  with Suc show ?case by (simp add: option.map_comp comp_def)
qed

lemma rfind_sub_replicate:
  "sep \<noteq> [] \<Longrightarrow> hd sep \<noteq> c \<Longrightarrow>
   rfind_sub sep (replicate n c @ rest) = map_option (\<lambda>i. n + i) (rfind_sub sep rest)"
proof (induction n)
  case 0
  then show ?case by (simp add: option.map_ident)
next
  case (Suc n)
  then have "\<not> prefix sep (c # replicate n c @ rest)"
    by (cases sep) auto
  with Suc show ?case by (auto simp: option.map_comp comp_def split: option.splits)
qed

lemma decode_part_no_file:
  "\<not> is_file_part part \<Longrightarrow> decode_part (fd, fn, t) part = Inr (fd', fn', t') \<Longrightarrow>
   fd' = fd \<and> fn' = fn"
  by (auto simp: decode_part_def split: if_splits list.splits sum.splits)

lemma decode_parts_no_file:
  "\<forall>part \<in> set parts. \<not> is_file_part part \<Longrightarrow>
   decode_parts (fd, fn, t) parts = Inr (fd', fn', t') \<Longrightarrow> fd' = fd \<and> fn' = fn"
proof (induction parts arbitrary: fd fn t)
  case Nil
  then show ?case by simp
next
  case (Cons part parts)
  from Cons.prems(2) obtain vars where
    one: "decode_part (fd, fn, t) part = Inr vars" and
    rest: "decode_parts vars parts = Inr (fd', fn', t')"
    by (auto split: sum.splits)
  obtain fd1 fn1 t1 where vars: "vars = (fd1, fn1, t1)"
    by (cases vars) auto
  from Cons.prems(1) have "\<not> is_file_part part" by simp
  from decode_part_no_file [OF this one [unfolded vars]]
  have "fd1 = fd \<and> fn1 = fn" .
  moreover from Cons.IH [of fd1 fn1 t1] Cons.prems(1) rest vars
  have "fd' = fd1 \<and> fn' = fn1" by simp
  ultimately show ?case by simp
qed

lemma store_upload_no_file:
  "fd = None \<or> fn = None \<Longrightarrow> store_upload st e req (fd, fn, t) = Inr (No_response, st)"
  by (auto simp: store_upload_def split: option.splits)

lemma store_upload_too_large:
  "50 * 1024 * 1024 < length fd \<Longrightarrow>
   store_upload st e req (Some fd, Some fn, t) =
     Inr (if fn \<noteq> [] then Json (Failure ''File too large'') else No_response, st)"
  by (auto simp: store_upload_def Let_def)

lemma handle_multipart_decoded:
  "decode_multipart data ct = Inr vars \<Longrightarrow>
   handle_multipart st e req data ct =
     (case store_upload st e req vars of
        Inl err \<Rightarrow> (Json (Failure ''File upload failed''), st)
      | Inr r \<Rightarrow> r)"
  by (simp add: handle_multipart_def multipart_try_def)

lemma handle_multipart_undecoded:
  "decode_multipart data ct = Inl err \<Longrightarrow>
   handle_multipart st e req data ct = (Json (Failure ''File upload failed''), st)"
  by (simp add: handle_multipart_def multipart_try_def)

text \<open>What \<^verbatim>\<open>store_upload\<close> can do to the state: nothing, a file, or a file and a message.\<close>

lemma store_upload_cases:
  assumes "store_upload st e req (fd, fn, t) = Inr (resp, st')"
  shows "(st' = st \<and> (resp = No_response \<or> resp = Json (Failure ''File too large'')))
       \<or> (\<exists>data name.
             fd = Some data \<and> fn = Some name \<and> data \<noteq> [] \<and> name \<noteq> [] \<and>
             (let stored = uuid4 e @ ''_'' @ name;
                  st1 = st\<lparr>uploads := (uploads st)(os_path_join ''uploads'' stored \<mapsto> data)\<rparr>
              in (resp = Send_error 401 \<and> st' = st1
                  \<and> (get_username_from_session st req = None
                       \<or> get_username_from_session st req = Some []))
               \<or> (\<exists>username. get_username_from_session st req = Some username \<and> username \<noteq> []
                     \<and> resp = Json Success
                     \<and> st' = add_message st1 e username
                          (if t \<noteq> [] then t else ''Shared a file'') ''file''
                          (Some stored) (Some (length data)))))"
  using assms
  by (auto simp: store_upload_def Let_def get_username_from_session_def
      split: option.splits if_splits)

lemma handle_multipart_messages:
  "messages (snd (handle_multipart st e req data ct)) = messages st
   \<or> (\<exists>fd fn t username.
        decode_multipart data ct = Inr (Some fd, Some fn, t)
        \<and> get_username_from_session st req = Some username
        \<and> messages (snd (handle_multipart st e req data ct)) =
            messages st @
              [\<lparr>row_id = next_rowid (map row_id (messages st)),
                row_username = username,
                row_message = (if t \<noteq> [] then t else ''Shared a file''),
                row_message_type = ''file'',
                row_file_name = Some (uuid4 e @ ''_'' @ fn),
                row_file_size = Some (length fd),
                row_timestamp = current_timestamp e\<rparr>])"
proof (cases "decode_multipart data ct")
  case (Inl err)
  then show ?thesis by (simp add: handle_multipart_undecoded)
next
  case (Inr vars)
  obtain fd fn t where vars: "vars = (fd, fn, t)"
    by (cases vars) auto
  note hm = handle_multipart_decoded [OF Inr, of st e req]
  show ?thesis
  proof (cases "store_upload st e req vars")
    case (Inl err)
    with hm show ?thesis by simp
  next
    case r: (Inr r)
    obtain resp st' where r': "r = (resp, st')"
      by (cases r) auto
    from r r' hm have res: "handle_multipart st e req data ct = (resp, st')"
      by simp
    from store_upload_cases [OF r [unfolded vars r']] Inr vars
    show ?thesis
      unfolding res by (auto simp: Let_def messages_add_message)
  qed
qed

lemma handle_register_messages:
  "handle_register st e data = Inr (resp, st') \<Longrightarrow> messages st' = messages st"
  by (auto simp: handle_register_def register_user_def Let_def
      split: sum.splits if_splits prod.splits bool.splits)

lemma handle_login_messages:
  "handle_login st e data = Inr (resp, st') \<Longrightarrow> messages st' = messages st"
  by (auto simp: handle_login_def Let_def split: sum.splits if_splits)

lemma handle_logout_messages:
  "messages (snd (handle_logout st req)) = messages st"
  by (auto simp: handle_logout_def split: option.splits)

lemma handle_message_messages:
  "handle_message st e req data = Inr (resp, st') \<Longrightarrow>
   messages st' = messages st
   \<or> (\<exists>row. messages st' = messages st @ [row] \<and> row_message_type row = ''text'')"
  by (auto simp: handle_message_def messages_add_message
      split: sum.splits if_splits option.splits)

lemma do_GET_state: "snd (do_GET st req) = st"
  by (simp add: do_GET_def)

lemma do_POST_messages:
  "messages (snd (do_POST st e req)) = messages st
   \<or> (\<exists>row. messages (snd (do_POST st e req)) = messages st @ [row]
         \<and> (row_message_type row = ''file'' \<longrightarrow> row_message row \<noteq> []))"
proof (cases "content_length req")
  case (Inl err)
  then show ?thesis by (simp add: do_POST_def)
next
  case (Inr n)
  define post_data where "post_data = (if n > 0 then take (nat n) (rfile req) else [])"
  define ct where "ct = (case content_type_header req of Some c \<Rightarrow> c | None \<Rightarrow> [])"
  show ?thesis
  proof (cases "py_in ''multipart/form-data'' ct")
    case True
    then have "do_POST st e req = handle_multipart st e req post_data ct"
      by (simp add: do_POST_def Inr post_data_def ct_def Let_def)
    with handle_multipart_messages [of st e req post_data ct] show ?thesis
      by (auto split: if_splits)
  next
    case False
    show ?thesis
    proof (cases "decode post_data")
      case (Inl err)
      with False show ?thesis
        by (simp add: do_POST_def Inr post_data_def ct_def Let_def)
    next
      case body: (Inr body)
      define result where "result =
         (if path req = ''/api/register'' then handle_register st e (parse_qs e body)
          else if path req = ''/api/login'' then handle_login st e (parse_qs e body)
          else if path req = ''/api/message'' then handle_message st e req (parse_qs e body)
          else if path req = ''/api/logout'' then Inr (handle_logout st req)
          else Inr (Send_error 404, st))"
      have post: "do_POST st e req = (case result of Inl err \<Rightarrow> (Send_error 500, st) | Inr r \<Rightarrow> r)"
        using False body
        by (simp add: do_POST_def Inr post_data_def [symmetric] ct_def [symmetric] Let_def result_def)
      show ?thesis
      proof (cases result)
        case (Inl err)
        with post show ?thesis by simp
      next
        case r: (Inr r)
        obtain resp st' where r': "r = (resp, st')" by (cases r) auto
        from r r' post have res: "do_POST st e req = (resp, st')" by simp
        from r r' have "messages st' = messages st
           \<or> (\<exists>row. messages st' = messages st @ [row] \<and> row_message_type row = ''text'')"
          unfolding result_def
          using handle_logout_messages [of st req]
          by (auto split: if_splits
              dest: handle_register_messages handle_login_messages handle_message_messages)
        then show ?thesis unfolding res by auto
      qed
    qed
  qed
qed

subsection \<open>Example uploads\<close>

lemma decode_photo_body:
  "decode_multipart photo_body upload_content_type =
     Inr (Some ''0123456789'', Some ''photo.png'', ''hello'')"
  by code_simp


lemma decode_photo_only_body:
  "decode_multipart photo_only_body upload_content_type =
     Inr (Some ''0123456789'', Some ''photo.png'', [])"
  by code_simp

lemma decode_text_body:
  "decode_multipart text_body upload_content_type = Inr (None, None, ''hello'')"
  by code_simp


lemma text_body_parts:
  "multipart_parts text_body upload_content_type = Inr (py_split text_body ''--boundary42'')"
  "\<forall>part \<in> set (py_split text_body ''--boundary42''). \<not> is_file_part part"
  "\<exists>part \<in> set (py_split text_body ''--boundary42''). is_message_part part"
  by code_simp+

lemma alice_upload_session:
  "get_username_from_session logged_in_server (upload_request alice_cookie body) = Some ''alice''"
proof -
  have "get_session_token (upload_request alice_cookie body) = Some (token_hex_32 example_env)"
    by (rule session_cookie_token)
      (simp_all add: hex_string_def example_env_def upload_request_def alice_cookie_def)
  then show ?thesis
    by (simp add: get_username_from_session_def logged_in_server_def)
qed

lemma anonymous_upload_session:
  "get_username_from_session st (upload_request None body) = None"
  by (simp add: get_username_from_session_def get_session_token_def upload_request_def
      py_split_absent py_in_def)

lemma do_POST_upload_request:
  "do_POST st e (upload_request cookie body) =
     handle_multipart st e (upload_request cookie body) body upload_content_type"
proof -
  have "py_in ''multipart/form-data'' upload_content_type"
    by code_simp
  then show ?thesis
    by (simp add: do_POST_def upload_request_def Let_def)
qed

lemma decode_multipart_no_file:
  assumes "\<forall>parts. multipart_parts data ct = Inr parts \<longrightarrow> (\<forall>part \<in> set parts. \<not> is_file_part part)"
    and "decode_multipart data ct = Inr (fd, fn, t)"
  shows "fd = None \<and> fn = None"
proof -
  from assms(2) obtain parts where parts: "multipart_parts data ct = Inr parts"
    and dec: "decode_parts (None, None, []) parts = Inr (fd, fn, t)"
    by (auto simp: decode_multipart_def split: sum.splits)
  from assms(1) parts have "\<forall>part \<in> set parts. \<not> is_file_part part"
    by blast
  from decode_parts_no_file [OF this dec] show ?thesis .
qed



text \<open>
  Claim C9. When no part of a multipart body carries both the \<^verbatim>\<open>name="file"\<close> and the
  \<^verbatim>\<open>filename="\<close> marker, \<^verbatim>\<open>handle_multipart\<close> leaves the whole state as it was: no
  message row, no mirror entry, no file. If the body decodes (its text part, if any, is
  read into \<^verbatim>\<open>message_text\<close>) the handler returns having written no response at all:
  the text is dropped. Otherwise it answers \<^verbatim>\<open>File upload failed\<close>.
\<close>

theorem text_only_upload_discarded:
  assumes "\<forall>parts. multipart_parts data ct = Inr parts \<longrightarrow>
             (\<forall>part \<in> set parts. \<not> is_file_part part)"
  shows "snd (handle_multipart st e req data ct) = st
       \<and> (fst (handle_multipart st e req data ct) = No_response
          \<or> fst (handle_multipart st e req data ct) = Json (Failure ''File upload failed''))
       \<and> (\<forall>vars. decode_multipart data ct = Inr vars \<longrightarrow>
             handle_multipart st e req data ct = (No_response, st))"
proof (cases "decode_multipart data ct")
  case (Inl err)
  then show ?thesis by (simp add: handle_multipart_undecoded)
next
  case (Inr vars)
  obtain fd fn t where vars: "vars = (fd, fn, t)"
    by (cases vars) auto
  from decode_multipart_no_file [OF assms Inr [unfolded vars]]
  have "store_upload st e req vars = Inr (No_response, st)"
    by (simp add: vars store_upload_no_file)
  with handle_multipart_decoded [OF Inr, of st e req]
  have "handle_multipart st e req data ct = (No_response, st)"
    by simp
  with Inr show ?thesis by simp
qed

theorem text_only_upload_discarded_witness:
  "list_all (\<lambda>part. \<not> is_file_part part) (py_split text_body ''--boundary42'')
   \<and> list_ex is_message_part (py_split text_body ''--boundary42'')
   \<and> decode_multipart text_body upload_content_type = Inr (None, None, ''hello'')
   \<and> get_username_from_session logged_in_server (upload_request alice_cookie text_body) =
       Some ''alice''
   \<and> handle_multipart logged_in_server example_env (upload_request alice_cookie text_body)
        text_body upload_content_type = (No_response, logged_in_server)"
proof -
  have hyp: "\<forall>parts. multipart_parts text_body upload_content_type = Inr parts \<longrightarrow>
          (\<forall>part \<in> set parts. \<not> is_file_part part)"
    using text_body_parts by simp
  from text_only_upload_discarded [OF hyp, of logged_in_server example_env
      "upload_request alice_cookie text_body"] decode_text_body
  have "handle_multipart logged_in_server example_env (upload_request alice_cookie text_body)
        text_body upload_content_type = (No_response, logged_in_server)"
    by blast
  with text_body_parts decode_text_body alice_upload_session show ?thesis
    by (simp add: list_all_iff list_ex_iff)
qed

lemma file_bodies_nonempty_step:
  assumes "file_bodies_nonempty st"
    and "messages st' = messages st
       \<or> (\<exists>row. messages st' = messages st @ [row]
             \<and> (row_message_type row = ''file'' \<longrightarrow> row_message row \<noteq> []))"
  shows "file_bodies_nonempty st'"
  using assms by (auto simp: file_bodies_nonempty_def)

text \<open>
  Claim C10. \<^verbatim>\<open>handle_multipart\<close> adds at most one row to the table of messages; the row
  is of kind \<^verbatim>\<open>file\<close> and its body is the decoded text when that is not empty and the
  literal \<^verbatim>\<open>Shared a file\<close> when it is empty or there was no text part: never empty.
  So if no row of kind \<^verbatim>\<open>file\<close> has an empty body, none has after any request.
\<close>

theorem upload_message_body_nonempty:
  "(messages (snd (handle_multipart st e req data ct)) = messages st
    \<or> (\<exists>row fd fn t.
          messages (snd (handle_multipart st e req data ct)) = messages st @ [row]
        \<and> row_message_type row = ''file''
        \<and> row_message row \<noteq> []
        \<and> decode_multipart data ct = Inr (fd, fn, t)
        \<and> row_message row = (if t \<noteq> [] then t else ''Shared a file'')))
   \<and> (file_bodies_nonempty st \<longrightarrow>
        file_bodies_nonempty (snd (do_POST st e' req'))
        \<and> file_bodies_nonempty (snd (do_GET st req')))"
proof -
  have a: "messages (snd (handle_multipart st e req data ct)) = messages st
    \<or> (\<exists>row fd fn t.
          messages (snd (handle_multipart st e req data ct)) = messages st @ [row]
        \<and> row_message_type row = ''file''
        \<and> row_message row \<noteq> []
        \<and> decode_multipart data ct = Inr (fd, fn, t)
        \<and> row_message row = (if t \<noteq> [] then t else ''Shared a file''))"
    using handle_multipart_messages [of st e req data ct]
  proof
    assume "messages (snd (handle_multipart st e req data ct)) = messages st"
    then show ?thesis by simp
  next
    assume "\<exists>fd fn t username.
        decode_multipart data ct = Inr (Some fd, Some fn, t)
        \<and> get_username_from_session st req = Some username
        \<and> messages (snd (handle_multipart st e req data ct)) =
            messages st @
              [\<lparr>row_id = next_rowid (map row_id (messages st)),
                row_username = username,
                row_message = (if t \<noteq> [] then t else ''Shared a file''),
                row_message_type = ''file'',
                row_file_name = Some (uuid4 e @ ''_'' @ fn),
                row_file_size = Some (length fd),
                row_timestamp = current_timestamp e\<rparr>]"
    then obtain fd fn t username where
      dec: "decode_multipart data ct = Inr (Some fd, Some fn, t)" and
      msgs: "messages (snd (handle_multipart st e req data ct)) =
            messages st @
              [\<lparr>row_id = next_rowid (map row_id (messages st)),
                row_username = username,
                row_message = (if t \<noteq> [] then t else ''Shared a file''),
                row_message_type = ''file'',
                row_file_name = Some (uuid4 e @ ''_'' @ fn),
                row_file_size = Some (length fd),
                row_timestamp = current_timestamp e\<rparr>]"
      by blast
    let ?row = "\<lparr>row_id = next_rowid (map row_id (messages st)),
                row_username = username,
                row_message = (if t \<noteq> [] then t else ''Shared a file''),
                row_message_type = ''file'',
                row_file_name = Some (uuid4 e @ ''_'' @ fn),
                row_file_size = Some (length fd),
                row_timestamp = current_timestamp e\<rparr>"
    have "row_message_type ?row = ''file''" "row_message ?row \<noteq> []"
      "row_message ?row = (if t \<noteq> [] then t else ''Shared a file'')"
      by simp_all
    with dec msgs show ?thesis by blast
  qed
  have b: "file_bodies_nonempty (snd (do_POST st e' req'))" if "file_bodies_nonempty st"
    using that do_POST_messages [of st e' req'] by (rule file_bodies_nonempty_step)
  have c: "file_bodies_nonempty (snd (do_GET st req'))" if "file_bodies_nonempty st"
    using that by (simp add: do_GET_state)
  from a b c show ?thesis by blast
qed

lemma get_username_from_session_uploads:
  "get_username_from_session (st\<lparr>uploads := u\<rparr>) req = get_username_from_session st req"
  by (simp add: get_username_from_session_def split: option.splits)

lemma alice_upload_photo_only:
  "messages (snd (do_POST logged_in_server example_env
      (upload_request alice_cookie photo_only_body))) =
     [\<lparr>row_id = 1, row_username = ''alice'', row_message = ''Shared a file'',
       row_message_type = ''file'',
       row_file_name = Some (uuid4 example_env @ ''_photo.png''),
       row_file_size = Some 10,
       row_timestamp = current_timestamp example_env\<rparr>]"
proof -
  have empty: "messages logged_in_server = []"
    by (simp add: logged_in_server_def alice_server_def register_user_fresh empty_server_def)
  show ?thesis
    by (simp add: do_POST_upload_request handle_multipart_decoded [OF decode_photo_only_body]
        store_upload_def get_username_from_session_uploads alice_upload_session example_env_def [THEN arg_cong, of open_raises]
        messages_add_message empty next_rowid_def Let_def)
qed

theorem upload_message_body_nonempty_witness:
  "file_bodies_nonempty logged_in_server
   \<and> file_bodies_nonempty (snd (do_POST logged_in_server example_env
        (upload_request alice_cookie photo_only_body)))
   \<and> map row_message (messages (snd (do_POST logged_in_server example_env
        (upload_request alice_cookie photo_only_body)))) = [''Shared a file'']"
proof -
  have empty: "messages logged_in_server = []"
    by (simp add: logged_in_server_def alice_server_def register_user_fresh empty_server_def)
  then have inv: "file_bodies_nonempty logged_in_server"
    by (simp add: file_bodies_nonempty_def)
  from upload_message_body_nonempty [of logged_in_server example_env
      "upload_request alice_cookie photo_only_body" photo_only_body upload_content_type
      example_env "upload_request alice_cookie photo_only_body"] inv
  have "file_bodies_nonempty (snd (do_POST logged_in_server example_env
        (upload_request alice_cookie photo_only_body)))"
    by blast
  with inv alice_upload_photo_only show ?thesis by simp
qed

subsection \<open>Uploads above the limit\<close>

lemma upload_boundary:
  "multipart_parts data upload_content_type = Inr (py_split data ''--boundary42'')"
  by (simp add: multipart_parts_def upload_content_type_def py_index_def encode_def
       py_split_found py_split_absent)

lemma big_body_parts:
  \<open>py_split (big_body n) ''--boundary42'' =
     [[],
      crlf @ ''Content-Disposition: form-data; name="file"; filename="big.bin"'' @ crlf
        @ ''Content-Type: application/octet-stream'' @ crlf @ crlf
        @ replicate n CHR ''a'' @ crlf,
      ''--'' @ crlf]\<close>
  by (simp add: big_body_def crlf_def py_split_found py_split_absent find_sub_replicate)

lemma untitled_body_parts:
  \<open>py_split (untitled_body n) ''--boundary42'' =
     [[],
      crlf @ ''Content-Disposition: form-data; name="file"; filename=""'' @ crlf
        @ ''Content-Type: application/octet-stream'' @ crlf @ crlf
        @ replicate n CHR ''a'' @ crlf,
      ''--'' @ crlf]\<close>
  by (simp add: untitled_body_def crlf_def py_split_found py_split_absent find_sub_replicate)

lemma decode_big_body:
  "decode_multipart (big_body n) upload_content_type =
     Inr (Some (replicate n CHR ''a''), Some ''big.bin'', [])"
  unfolding decode_multipart_def upload_boundary big_body_parts
  by (simp add: decode_part_def is_file_part_def is_message_part_def py_in_def py_split1_def
        py_rsplit1_def py_find_def py_slice_def decode_def crlf_def rfind_sub_replicate
        find_sub_replicate Let_def)

lemma decode_untitled_body:
  "decode_multipart (untitled_body n) upload_content_type =
     Inr (Some (replicate n CHR ''a''), Some [], [])"
  unfolding decode_multipart_def upload_boundary untitled_body_parts
  by (simp add: decode_part_def is_file_part_def is_message_part_def py_in_def py_split1_def
        py_rsplit1_def py_find_def py_slice_def decode_def crlf_def rfind_sub_replicate
        find_sub_replicate Let_def)

text \<open>
  Claim C6, as stated, fails: an upload whose file part has the empty file name
  \<^verbatim>\<open>filename=""\<close> and a payload of 50 MiB and one byte is decoded into that payload, and
  the handler then returns without writing any response (the \<^verbatim>\<open>if file_data and filename\<close>
  guard is false): it is not answered with \<^verbatim>\<open>File too large\<close>.
\<close>

theorem oversized_upload_rejected_counterexample:
  "decode_multipart (untitled_body oversized) upload_content_type =
     Inr (Some (replicate oversized CHR ''a''), Some [], [])
   \<and> 50 * 1024 * 1024 < length (replicate oversized CHR ''a'')
   \<and> do_POST logged_in_server example_env
        (upload_request alice_cookie (untitled_body oversized)) =
       (No_response, logged_in_server)
   \<and> fst (do_POST logged_in_server example_env
        (upload_request alice_cookie (untitled_body oversized))) \<noteq>
       Json (Failure ''File too large'')"
proof -
  have big: "50 * 1024 * 1024 < length (replicate oversized CHR ''a'')"
    by (simp add: oversized_def)
  have "store_upload logged_in_server example_env
          (upload_request alice_cookie (untitled_body oversized))
          (Some (replicate oversized CHR ''a''), Some [], []) = Inr (No_response, logged_in_server)"
    by (simp add: store_upload_def)
  then have "do_POST logged_in_server example_env
        (upload_request alice_cookie (untitled_body oversized)) =
       (No_response, logged_in_server)"
    by (simp add: do_POST_upload_request handle_multipart_decoded [OF decode_untitled_body])
  with big decode_untitled_body show ?thesis by simp
qed

text \<open>
  Claim C6, amended. When the decoded file payload is longer than 50 MiB and the decoded
  file name is not empty, \<^verbatim>\<open>handle_multipart\<close> answers with the JSON error
  \<^verbatim>\<open>File too large\<close> (\<^verbatim>\<open>serve_json\<close>, status 200); when the file name is empty it writes
  no response. In both cases the state is unchanged: no message row and no file.
\<close>

theorem oversized_upload_rejected:
  assumes "decode_multipart data ct = Inr (Some fd, Some fn, t)"
    and "50 * 1024 * 1024 < length fd"
  shows "handle_multipart st e req data ct =
           (if fn \<noteq> [] then Json (Failure ''File too large'') else No_response, st)"
  using handle_multipart_decoded [OF assms(1), of st e req] store_upload_too_large [OF assms(2)]
  by simp

theorem oversized_upload_rejected_witness:
  "decode_multipart (big_body oversized) upload_content_type =
     Inr (Some (replicate oversized CHR ''a''), Some ''big.bin'', [])
   \<and> 50 * 1024 * 1024 < length (replicate oversized CHR ''a'')
   \<and> handle_multipart logged_in_server example_env
        (upload_request alice_cookie (big_body oversized)) (big_body oversized)
        upload_content_type =
       (Json (Failure ''File too large''), logged_in_server)"
proof -
  have big: "50 * 1024 * 1024 < length (replicate oversized CHR ''a'')"
    by (simp add: oversized_def)
  from oversized_upload_rejected [OF decode_big_body big, of logged_in_server example_env
      "upload_request alice_cookie (big_body oversized)"] big decode_big_body
  show ?thesis by simp
qed

section \<open>Requests without a session\<close>

lemma unresolved_not_verified:
  "get_username_from_session st req = None \<Longrightarrow> \<not> verify_session st req"
  by (auto simp: get_username_from_session_def verify_session_def split: option.splits)

lemma handle_logout_unresolved:
  "get_username_from_session st req = None \<Longrightarrow> handle_logout st req = (Logout_ok, st)"
  by (auto simp: handle_logout_def get_username_from_session_def split: option.splits)

lemma handle_message_unresolved:
  "get_username_from_session st req = None \<Longrightarrow>
   handle_message st e req data = Inr (Send_error 401, st)"
  by (simp add: handle_message_def unresolved_not_verified)

lemma do_GET_unresolved:
  "get_username_from_session st req = None \<Longrightarrow>
   path req = ''/api/messages'' \<or> path req = ''/api/userinfo'' \<Longrightarrow>
   do_GET st req = (Send_error 401, st)"
  by (auto simp: do_GET_def unresolved_not_verified)

lemma do_POST_form_unresolved:
  assumes "get_username_from_session st req = None"
    and "\<not> py_in ''multipart/form-data''
           (case content_type_header req of Some c \<Rightarrow> c | None \<Rightarrow> [])"
  shows "path req = ''/api/message'' \<Longrightarrow>
           do_POST st e req = (Send_error 401, st) \<or> do_POST st e req = (Send_error 500, st)"
    and "path req = ''/api/logout'' \<Longrightarrow>
           do_POST st e req = (Logout_ok, st) \<or> do_POST st e req = (Send_error 500, st)"
    and "path req = ''/api/message'' \<Longrightarrow> content_length req = Inr n \<Longrightarrow>
         utf8_valid (if n > 0 then take (nat n) (rfile req) else []) \<Longrightarrow>
           do_POST st e req = (Send_error 401, st)"
    and "path req = ''/api/logout'' \<Longrightarrow> content_length req = Inr n \<Longrightarrow>
         utf8_valid (if n > 0 then take (nat n) (rfile req) else []) \<Longrightarrow>
           do_POST st e req = (Logout_ok, st)"
  using assms(2) handle_message_unresolved [OF assms(1)] handle_logout_unresolved [OF assms(1)]
  by (auto simp: do_POST_def Let_def decode_def split: sum.splits)

lemma handle_multipart_unresolved:
  assumes "get_username_from_session st req = None"
  shows "users (snd (handle_multipart st e req data ct)) = users st
       \<and> messages (snd (handle_multipart st e req data ct)) = messages st
       \<and> message_history (snd (handle_multipart st e req data ct)) = message_history st
       \<and> session_tokens (snd (handle_multipart st e req data ct)) = session_tokens st
       \<and> fst (handle_multipart st e req data ct) \<in>
           {Send_error 401, No_response, Json (Failure ''File too large''),
            Json (Failure ''File upload failed'')}"
proof (cases "decode_multipart data ct")
  case (Inl err)
  then show ?thesis by (simp add: handle_multipart_undecoded)
next
  case (Inr vars)
  obtain fd fn t where vars: "vars = (fd, fn, t)"
    by (cases vars) auto
  note hm = handle_multipart_decoded [OF Inr, of st e req]
  show ?thesis
  proof (cases "store_upload st e req vars")
    case (Inl err)
    with hm show ?thesis by simp
  next
    case r: (Inr r)
    obtain resp st' where r': "r = (resp, st')"
      by (cases r) auto
    from r r' hm have res: "handle_multipart st e req data ct = (resp, st')"
      by simp
    from store_upload_cases [OF r [unfolded vars r']] assms
    show ?thesis
      unfolding res by (auto simp: Let_def)
  qed
qed

lemma no_cookie_unresolved:
  "cookie_header req = None \<Longrightarrow> get_username_from_session st req = None"
  by (simp add: get_username_from_session_def get_session_token_def py_split_absent py_in_def)

lemma handle_multipart_unresolved_401:
  assumes "get_username_from_session st req = None"
    and "decode_multipart data ct = Inr (Some fd, Some fn, t)"
    and "fd \<noteq> []" and "fn \<noteq> []" and "length fd \<le> 50 * 1024 * 1024"
    and "\<not> open_raises e"
  shows "fst (handle_multipart st e req data ct) = Send_error 401"
  using assms(1,3-6)
  by (simp add: handle_multipart_decoded [OF assms(2)] store_upload_def Let_def
      get_username_from_session_uploads)

text \<open>
  Claim C1, as stated, fails: a logout request without any session cookie is answered with
  the usual response of a logout (status 200, clearing the cookie), not with an
  authorization error. \<^verbatim>\<open>handle_logout\<close> never refuses a request.
\<close>

theorem unauthenticated_denied_counterexample:
  "get_username_from_session empty_server anonymous_logout = None
   \<and> do_POST empty_server example_env anonymous_logout = (Logout_ok, empty_server)
   \<and> fst (do_POST empty_server example_env anonymous_logout) \<noteq> Send_error 401"
proof -
  have "\<not> py_in ''multipart/form-data'' []"
    by (simp add: py_in_def)
  then have "do_POST empty_server example_env anonymous_logout = (Logout_ok, empty_server)"
    by (simp add: do_POST_def anonymous_logout_def decode_def handle_logout_unresolved
        no_cookie_unresolved)
  then show ?thesis
    by (simp add: no_cookie_unresolved anonymous_logout_def)
qed

text \<open>
  An upload without a session is answered with 401 only after \<^verbatim>\<open>handle_multipart\<close> has
  written the file: the attachment is stored although the request is refused.
\<close>

lemma anonymous_upload_stores_file:
  "get_username_from_session empty_server (upload_request None photo_body) = None
   \<and> uploads empty_server (''uploads/'' @ uuid4 example_env @ ''_photo.png'') = None
   \<and> fst (do_POST empty_server example_env (upload_request None photo_body)) = Send_error 401
   \<and> uploads (snd (do_POST empty_server example_env (upload_request None photo_body)))
        (''uploads/'' @ uuid4 example_env @ ''_photo.png'') = Some ''0123456789''"
proof -
  have anon: "get_username_from_session st (upload_request None photo_body) = None" for st
    by (rule anonymous_upload_session)
  have "do_POST empty_server example_env (upload_request None photo_body) =
          (Send_error 401,
           empty_server\<lparr>uploads := (uploads empty_server)
             (''uploads/'' @ uuid4 example_env @ ''_photo.png'' \<mapsto> ''0123456789'')\<rparr>)"
    by (simp add: do_POST_upload_request handle_multipart_decoded [OF decode_photo_body]
        store_upload_def anon os_path_join_def example_env_def Let_def)
  then show ?thesis
    by (simp add: anon empty_server_def)
qed

text \<open>
  Claim C1, amended. For a request whose session token resolves to no user:
  \<^item> \<^verbatim>\<open>GET /api/messages\<close> and \<^verbatim>\<open>GET /api/userinfo\<close> are answered with 401 and the state
    is unchanged;
  \<^item> \<^verbatim>\<open>handle_message\<close> answers 401 and leaves the state unchanged; so does
    \<^verbatim>\<open>POST /api/message\<close> with a form body, unless the Content-Length is not an integer
    or the body is not UTF-8, when \<^verbatim>\<open>do_POST\<close> answers 500, the state unchanged too;
  \<^item> \<^verbatim>\<open>handle_logout\<close> answers as for any logout (it is not an authorization error) and
    leaves the state unchanged; \<^verbatim>\<open>POST /api/logout\<close> likewise, or 500 as above;
  \<^item> a multipart upload creates no account, no message row and no mirror entry and
    leaves the session tokens as they were; it is answered with 401, with
    \<^verbatim>\<open>File too large\<close>, with \<^verbatim>\<open>File upload failed\<close> or not at all, and with 401 when a
    file with a name, not empty and within the limit, was decoded and could be written.
\<close>

theorem unauthenticated_requests:
  assumes "get_username_from_session st req = None"
  shows "(path req = ''/api/messages'' \<or> path req = ''/api/userinfo'' \<longrightarrow>
            do_GET st req = (Send_error 401, st))
       \<and> handle_message st e req form = Inr (Send_error 401, st)
       \<and> handle_logout st req = (Logout_ok, st)
       \<and> (\<not> py_in ''multipart/form-data''
             (case content_type_header req of Some c \<Rightarrow> c | None \<Rightarrow> []) \<longrightarrow>
            (path req = ''/api/message'' \<longrightarrow>
               (do_POST st e req = (Send_error 401, st) \<or> do_POST st e req = (Send_error 500, st))
               \<and> (\<forall>n. content_length req = Inr n
                      \<and> utf8_valid (if n > 0 then take (nat n) (rfile req) else []) \<longrightarrow>
                      do_POST st e req = (Send_error 401, st)))
            \<and> (path req = ''/api/logout'' \<longrightarrow>
               (do_POST st e req = (Logout_ok, st) \<or> do_POST st e req = (Send_error 500, st))
               \<and> (\<forall>n. content_length req = Inr n
                      \<and> utf8_valid (if n > 0 then take (nat n) (rfile req) else []) \<longrightarrow>
                      do_POST st e req = (Logout_ok, st))))
       \<and> users (snd (handle_multipart st e req data ct)) = users st
       \<and> messages (snd (handle_multipart st e req data ct)) = messages st
       \<and> message_history (snd (handle_multipart st e req data ct)) = message_history st
       \<and> session_tokens (snd (handle_multipart st e req data ct)) = session_tokens st
       \<and> fst (handle_multipart st e req data ct) \<in>
           {Send_error 401, No_response, Json (Failure ''File too large''),
            Json (Failure ''File upload failed'')}
       \<and> (decode_multipart data ct = Inr (Some fd, Some fn, t)
            \<and> fd \<noteq> [] \<and> fn \<noteq> [] \<and> length fd \<le> 50 * 1024 * 1024 \<and> \<not> open_raises e \<longrightarrow>
            fst (handle_multipart st e req data ct) = Send_error 401)"
proof -
  note form_rules = do_POST_form_unresolved [where e = e, OF assms]
  have post: "(path req = ''/api/message'' \<longrightarrow>
               (do_POST st e req = (Send_error 401, st) \<or> do_POST st e req = (Send_error 500, st))
               \<and> (\<forall>n. content_length req = Inr n
                      \<and> utf8_valid (if n > 0 then take (nat n) (rfile req) else []) \<longrightarrow>
                      do_POST st e req = (Send_error 401, st)))
            \<and> (path req = ''/api/logout'' \<longrightarrow>
               (do_POST st e req = (Logout_ok, st) \<or> do_POST st e req = (Send_error 500, st))
               \<and> (\<forall>n. content_length req = Inr n
                      \<and> utf8_valid (if n > 0 then take (nat n) (rfile req) else []) \<longrightarrow>
                      do_POST st e req = (Logout_ok, st)))"
    if "\<not> py_in ''multipart/form-data''
             (case content_type_header req of Some c \<Rightarrow> c | None \<Rightarrow> [])"
    using form_rules [OF that] by blast
  from do_GET_unresolved [OF assms] handle_message_unresolved [OF assms, of e form]
    handle_logout_unresolved [OF assms] post
    handle_multipart_unresolved [OF assms, of e data ct]
    handle_multipart_unresolved_401 [OF assms, of data ct fd fn t e]
  show ?thesis by blast
qed

theorem unauthenticated_requests_witness:
  "get_username_from_session empty_server anonymous_post = None
   \<and> do_POST empty_server example_env anonymous_post = (Send_error 401, empty_server)
   \<and> do_GET empty_server (anonymous_post\<lparr>path := ''/api/messages''\<rparr>) =
       (Send_error 401, empty_server)
   \<and> messages (snd (handle_multipart empty_server example_env (upload_request None photo_body)
        photo_body upload_content_type)) = []
   \<and> fst (handle_multipart empty_server example_env (upload_request None photo_body)
        photo_body upload_content_type) = Send_error 401"
proof -
  have anon: "get_username_from_session empty_server anonymous_post = None"
    by (simp add: no_cookie_unresolved anonymous_post_def)
  have anon_get: "get_username_from_session empty_server
      (anonymous_post\<lparr>path := ''/api/messages''\<rparr>) = None"
    by (simp add: no_cookie_unresolved anonymous_post_def)
  have anon_up: "get_username_from_session empty_server (upload_request None photo_body) = None"
    by (rule anonymous_upload_session)
  have form: "\<not> py_in ''multipart/form-data''
      (case content_type_header anonymous_post of Some c \<Rightarrow> c | None \<Rightarrow> [])"
    unfolding anonymous_post_def by code_simp
  have valid: "content_length anonymous_post = Inr 13
      \<and> utf8_valid (if (13::int) > 0 then take (nat 13) (rfile anonymous_post) else [])"
    unfolding anonymous_post_def by code_simp
  have p: "path anonymous_post = ''/api/message''"
    "path (anonymous_post\<lparr>path := ''/api/messages''\<rparr>) = ''/api/messages''"
    by (simp_all add: anonymous_post_def)
  have small: "''0123456789'' \<noteq> [] \<and> ''photo.png'' \<noteq> []
      \<and> length ''0123456789'' \<le> 50 * 1024 * 1024 \<and> \<not> open_raises example_env"
    by (simp add: example_env_def)
  from unauthenticated_requests [OF anon, of example_env] form valid p(1)
  have 1: "do_POST empty_server example_env anonymous_post = (Send_error 401, empty_server)"
    by blast
  from unauthenticated_requests [OF anon_get] p(2)
  have 2: "do_GET empty_server (anonymous_post\<lparr>path := ''/api/messages''\<rparr>) =
       (Send_error 401, empty_server)"
    by blast
  from unauthenticated_requests [OF anon_up, of example_env _ photo_body upload_content_type
      "''0123456789''" "''photo.png''" "''hello''"] decode_photo_body small
  have 3: "messages (snd (handle_multipart empty_server example_env
        (upload_request None photo_body) photo_body upload_content_type)) = messages empty_server
     \<and> fst (handle_multipart empty_server example_env (upload_request None photo_body)
        photo_body upload_content_type) = Send_error 401"
    by blast
  from anon 1 2 3 show ?thesis
    by (simp add: empty_server_def)
qed

end
